theory Spec2Isabelle
  imports Complex_Main
begin

section \<open>Values, identifiers and documents\<close>

text \<open>
  The sale engine lives in \<^verbatim>\<open>src/controllers/saleController.js\<close> (createSale, cancelSale,
  returnProducts) and works on the Mongoose models Batch, Sale, Store, Customer and Product.

  Modelling conventions.
  \<^item> A JavaScript Number is an exact rational (\<open>rat\<close>): sums, products and comparisons
    are those of the source without the rounding of IEEE doubles. A value that is
    \<^verbatim>\<open>undefined\<close> or \<^verbatim>\<open>NaN\<close> where a number is expected is \<open>None\<close>.
  \<^item> An id is \<open>Oid n\<close> when \<^verbatim>\<open>mongoose.Types.ObjectId.isValid\<close> accepts it and
    \<open>Malformed s\<close> otherwise.
  \<^item> A collection is the list of its documents; \<^verbatim>\<open>findOne\<close> returns the first match.
  \<^item> Every handler runs in one MongoDB transaction: it works on a copy of the database,
    \<^verbatim>\<open>commitTransaction\<close> returns the copy and \<^verbatim>\<open>abortTransaction\<close> returns the
    database the handler was called with.
  \<^item> \<^verbatim>\<open>Date.now()\<close>, \<^verbatim>\<open>Math.random()\<close> and the ids MongoDB generates are inputs
    (\<open>env\<close>); dates are milliseconds.
\<close>

datatype oid = Oid nat | Malformed string

fun isValid :: "oid \<Rightarrow> bool" where
  "isValid (Oid n) = True"
| "isValid (Malformed s) = False"

datatype jsval = JUndefined | JNull | JNum rat | JStr string

fun truthy :: "jsval \<Rightarrow> bool" where
  "truthy JUndefined = False"
| "truthy JNull = False"
| "truthy (JNum n) = (n \<noteq> 0)"
| "truthy (JStr s) = (s \<noteq> [])"

fun isNumber :: "jsval \<Rightarrow> bool" where
  "isNumber (JNum n) = True"
| "isNumber v = False"

fun Number_isInteger :: "jsval \<Rightarrow> bool" where
  "Number_isInteger (JNum n) = (of_int \<lfloor>n\<rfloor> = n)"
| "Number_isInteger v = False"

text \<open>\<^verbatim>\<open>v || 0\<close> for a value that is a number or undefined.\<close>

fun numOrZero :: "jsval \<Rightarrow> rat" where
  "numOrZero (JNum n) = n"
| "numOrZero v = 0"

fun orZero :: "rat option \<Rightarrow> rat" where
  "orZero (Some n) = n"
| "orZero None = 0"

text \<open>Arithmetic where an operand may be undefined or NaN: the result is NaN then.\<close>

fun jsAdd :: "rat option \<Rightarrow> rat option \<Rightarrow> rat option" where
  "jsAdd (Some a) (Some b) = Some (a + b)"
| "jsAdd a b = None"

fun jsSub :: "rat option \<Rightarrow> rat option \<Rightarrow> rat option" where
  "jsSub (Some a) (Some b) = Some (a - b)"
| "jsSub a b = None"

fun jsMul :: "rat option \<Rightarrow> rat option \<Rightarrow> rat option" where
  "jsMul (Some a) (Some b) = Some (a * b)"
| "jsMul a b = None"

text \<open>
  \<^verbatim>\<open>a / b\<close>: with \<open>b = 0\<close> JavaScript gives NaN or an infinity, and every use of the
  quotient in the handlers multiplies it by a finite number and stores the product in a
  Number field, which accepts neither; both are \<open>None\<close>.
\<close>

fun jsDiv :: "rat option \<Rightarrow> rat option \<Rightarrow> rat option" where
  "jsDiv (Some a) (Some b) = (if b = 0 then None else Some (a / b))"
| "jsDiv a b = None"

text \<open>
  \<^verbatim>\<open>parseFloat(x.toFixed(2))\<close>: the nearest multiple of 0.01, a tie going away from
  zero.
\<close>

definition toFixed2 :: "rat \<Rightarrow> rat" where
  "toFixed2 x =
     (if x < 0 then - (of_int \<lfloor>- x * 100 + 1 / 2\<rfloor> / 100)
      else of_int \<lfloor>x * 100 + 1 / 2\<rfloor> / 100)"

datatype role = Admin | Owner | Staff

record user =
  u_id :: oid
  u_role :: role

record store =
  st_id :: oid
  st_owner :: oid
  st_staff :: "oid list"

record customer =
  c_id :: oid
  c_store :: oid
  c_name :: string
  c_email :: jsval
  c_phoneNumber :: jsval

text \<open>
  The Product schema declares no \<^verbatim>\<open>sellingPrice\<close>; \<open>p_sellingPrice\<close> is what
  \<^verbatim>\<open>product.sellingPrice\<close> reads in createSale (\<open>None\<close> when it is undefined).
\<close>

record product =
  p_id :: oid
  p_store :: oid
  p_name :: string
  p_sellingPrice :: "rat option"

record batch =
  b_id :: oid
  b_product :: oid
  b_store :: oid
  batchNumber :: string
  expiryDate :: int
  sellingPrice :: rat
  currentStock :: rat
  initialStock :: rat

record sale_item =
  si_product :: oid
  si_batch :: oid
  si_quantity :: rat
  si_unitPrice :: rat
  si_discount :: rat
  si_subtotal :: rat
  si_returnedQuantity :: rat

record returned_line =
  rl_product :: oid
  rl_batch :: oid
  rl_quantity :: rat

record return_record =
  ret_date :: int
  ret_items :: "returned_line list"
  ret_reason :: string
  ret_processedBy :: oid
  ret_refundAmount :: rat

record payment =
  pay_method :: string
  pay_status :: "string option"

text \<open>
  The invoice number \<^verbatim>\<open>INV-${Date.now()}-${Math.floor(Math.random() * 1000)}\<close> is the
  pair of its two numbers. The fields of a sale are the paths of the Sale schema. The schema
  declares no \<^verbatim>\<open>discountAmount\<close> path, so a sale document has none; \<^verbatim>\<open>payment.status\<close>
  is \<open>None\<close> only in a request body, a stored sale has the schema default
  \<^verbatim>\<open>"pending"\<close> in its place.
\<close>

record sale =
  sale_id :: oid
  sale_store :: oid
  invoiceNumber :: "int \<times> nat"
  sale_customer :: oid
  sale_items :: "sale_item list"
  sale_subtotal :: rat
  sale_discount :: rat
  sale_tax :: rat
  sale_total :: rat
  sale_returnTotal :: rat
  sale_finalTotal :: rat
  sale_payment :: payment
  sale_staffMember :: oid
  sale_createdAt :: int
  sale_returns :: "return_record list"

record db =
  stores :: "store list"
  customers :: "customer list"
  products :: "product list"
  batches :: "batch list"
  sales :: "sale list"

record env =
  now :: int
  random1000 :: nat
  newCustomerId :: oid
  newSaleId :: oid

section \<open>Requests and responses\<close>

record item_req =
  i_product :: oid
  i_quantity :: jsval
  i_unitPrice :: "rat option"
  i_price :: "rat option"
  i_batch :: "oid option"
  i_discount :: "rat option"

text \<open>
  \<open>validationErrors\<close> is what \<^verbatim>\<open>validationResult(req)\<close> holds after the route's
  validators ran; \<open>rq_items = None\<close> is a missing or non-array \<^verbatim>\<open>items\<close>.
\<close>

record sale_req =
  validationErrors :: "string list"
  rq_store :: "oid option"
  rq_customer :: "oid option"
  rq_items :: "item_req list option"
  rq_subtotal :: jsval
  rq_discount :: jsval
  rq_tax :: jsval
  rq_total :: jsval
  rq_payment :: "payment option"
  forceCreate :: bool

record return_line_req =
  productId :: "oid option"
  batchId :: "oid option"
  rt_quantity :: jsval

record return_req =
  rt_validationErrors :: "string list"
  saleId :: oid
  storeId :: "oid option"
  returnedItems :: "return_line_req list option"
  reason :: "string option"

text \<open>One constructor for each message the three handlers send with a failure status.\<close>

datatype failure =
    ValidationErrors
  | NoItems
  | PaymentRequired
  | AmountsNotNumbers
  | StoreNotFound
  | InvalidCustomerId
  | CustomerNotFound
  | CustomerNotInStore
  | InvalidProductId oid
  | InvalidQuantity oid
  | ProductNotFound oid
  | NoAvailableBatches oid
  | InsufficientTotalStock oid rat rat
  | InvalidBatchId oid
  | BatchNotFound oid
  | InsufficientBatchStock oid rat rat
  | AllocationFailed oid
  | InvalidStaffId
  | SchemaValidationError
  | DuplicateKey
  | InternalError
  | InvalidSaleId
  | SaleNotFound
  | AssociatedStoreNotFound
  | NotOwnerOrAdmin
  | TooOldToCancel
  | InvalidStoreId
  | NoReturnedItems
  | MissingReturnFields
  | InvalidReturnIds
  | QuantityNotPositive
  | NoReturnPermission
  | ReturnWindowExpired
  | ItemNotInSale oid oid
  | ReturnExceedsPurchased oid
  | AlreadyReturned oid

record recalc_item =
  rc_productId :: oid
  rc_batchId :: oid
  rc_quantity :: rat
  rc_unitPrice :: rat
  rc_subtotal :: rat
  rc_discount :: rat

record recalculation =
  recalc_subtotal :: rat
  recalc_discountPercentage :: rat
  recalc_discountAmount :: rat
  recalc_tax :: rat
  recalc_total :: rat
  recalc_items :: "recalc_item list"
  original_subtotal :: rat
  original_total :: rat

record return_summary_line =
  rs_product :: oid
  rs_batch :: "string + oid"
  rs_returnedQuantity :: rat
  rs_unitPrice :: rat
  rs_discountPerUnit :: rat
  rs_effectiveUnitPrice :: rat
  rs_refundAmount :: rat

record return_result =
  rr_invoiceNumber :: "int \<times> nat"
  rr_storeId :: oid
  returnSummary :: "return_summary_line list"
  totalRefundAmount :: rat
  updatedSaleTotal :: rat

datatype response =
    Failure nat failure
  | Recalculation recalculation
  | SaleCreated sale
  | SaleCanceled
  | ProductsReturned return_result

section \<open>createSale\<close>

subsection \<open>Store and customer\<close>

text \<open>
  An owner sells in the store they own; anyone else names the store.
  \<^verbatim>\<open>Store.findById\<close> of a malformed id throws, which the handler's catch turns into
  status 500.
\<close>

definition resolveStore :: "user \<Rightarrow> oid option \<Rightarrow> db \<Rightarrow> response + store" where
  "resolveStore u s d =
     (if u_role u = Owner then
        (case find (\<lambda>st. st_owner st = u_id u) (stores d) of
           None \<Rightarrow> Inl (Failure 404 StoreNotFound)
         | Some st \<Rightarrow> Inr st)
      else
        (case s of
           None \<Rightarrow> Inl (Failure 404 StoreNotFound)
         | Some sid \<Rightarrow>
             if \<not> isValid sid then Inl (Failure 500 InternalError)
             else (case find (\<lambda>st. st_id st = sid) (stores d) of
                     None \<Rightarrow> Inl (Failure 404 StoreNotFound)
                   | Some st \<Rightarrow> Inr st)))"

text \<open>A query for \<^verbatim>\<open>null\<close> matches a field that is null or missing.\<close>

fun isNullish :: "jsval \<Rightarrow> bool" where
  "isNullish JUndefined = True"
| "isNullish JNull = True"
| "isNullish v = False"

definition isWalkIn :: "oid \<Rightarrow> customer \<Rightarrow> bool" where
  "isWalkIn sid c \<longleftrightarrow>
     c_store c = sid \<and> c_name c = ''Walk-in Customer'' \<and> isNullish (c_email c)
     \<and> isNullish (c_phoneNumber c)"

text \<open>
  The customer of the sale, and the database with the walk-in customer added when one had
  to be created. The Customer schema puts a unique sparse index on \<^verbatim>\<open>email\<close>; the new
  walk-in customer stores \<^verbatim>\<open>email: null\<close>, so the insert is a duplicate key (code
  11000, answered with status 409) when a customer with a null email exists already.
\<close>

definition resolveCustomer :: "env \<Rightarrow> oid \<Rightarrow> oid option \<Rightarrow> db \<Rightarrow> response + (oid \<times> db)" where
  "resolveCustomer e sid cust d =
     (case cust of
        Some c \<Rightarrow>
          if \<not> isValid c then Inl (Failure 400 InvalidCustomerId)
          else (case find (\<lambda>x. c_id x = c) (customers d) of
                  None \<Rightarrow> Inl (Failure 404 CustomerNotFound)
                | Some customerDoc \<Rightarrow>
                    if c_store customerDoc \<noteq> sid then Inl (Failure 400 CustomerNotInStore)
                    else Inr (c, d))
      | None \<Rightarrow>
          (case find (isWalkIn sid) (customers d) of
             Some existingWalkInCustomer \<Rightarrow> Inr (c_id existingWalkInCustomer, d)
           | None \<Rightarrow>
               if \<exists>x \<in> set (customers d). c_email x = JNull then Inl (Failure 409 DuplicateKey)
               else Inr (newCustomerId e,
                         d\<lparr>customers := customers d @
                            [\<lparr>c_id = newCustomerId e, c_store = sid,
                              c_name = ''Walk-in Customer'', c_email = JNull,
                              c_phoneNumber = JNull\<rparr>]\<rparr>)))"

subsection \<open>Allocation of one item\<close>

text \<open>An entry of \<^verbatim>\<open>processedItems\<close>, before the Sale schema has validated it.\<close>

record proc_item =
  pi_product :: oid
  pi_batch :: oid
  pi_quantity :: rat
  pi_unitPrice :: "rat option"
  pi_subtotal :: "rat option"
  pi_discount :: "rat option"

text \<open>
  \<^verbatim>\<open>!item.quantity || item.quantity <= 0 || !Number.isInteger(item.quantity)\<close>; a value
  that is not a number fails the last test whatever the first two say.
\<close>

definition invalidQuantity :: "jsval \<Rightarrow> bool" where
  "invalidQuantity q \<longleftrightarrow>
     \<not> truthy q \<or> (case q of JNum n \<Rightarrow> n \<le> 0 | _ \<Rightarrow> False) \<or> \<not> Number_isInteger q"

text \<open>\<^verbatim>\<open>item.unitPrice !== undefined ? item.unitPrice : item.price\<close>\<close>

definition itemPrice :: "item_req \<Rightarrow> rat option" where
  "itemPrice it = (case i_unitPrice it of Some p \<Rightarrow> Some p | None \<Rightarrow> i_price it)"

definition defaultEffectivePrice :: "item_req \<Rightarrow> product \<Rightarrow> rat option" where
  "defaultEffectivePrice it p =
     (case itemPrice it of
        None \<Rightarrow> p_sellingPrice p
      | Some x \<Rightarrow> if x \<le> 0 then p_sellingPrice p else Some x)"

text \<open>\<^verbatim>\<open>batch.sellingPrice || defaultEffectivePrice\<close>\<close>

definition priceOr :: "rat \<Rightarrow> rat option \<Rightarrow> rat option" where
  "priceOr sp dflt = (if sp \<noteq> 0 then Some sp else dflt)"

text \<open>
  \<^verbatim>\<open>Batch.find({product, store, currentStock: {$gt: 0}}).sort({expiryDate: 1})\<close>; batches
  with the same expiry date keep the order of the collection.
\<close>

definition availableBatches :: "oid \<Rightarrow> oid \<Rightarrow> batch list \<Rightarrow> batch list" where
  "availableBatches pid sid bl =
     sort_key expiryDate
       (filter (\<lambda>b. b_product b = pid \<and> b_store b = sid \<and> currentStock b > 0) bl)"

text \<open>\<^verbatim>\<open>doc.save({ session })\<close> writes the document over the stored one with its id.\<close>

definition saveBatch :: "batch \<Rightarrow> batch list \<Rightarrow> batch list" where
  "saveBatch doc bl = map (\<lambda>x. if b_id x = b_id doc then doc else x) bl"

text \<open>
  The record the loop pushes for \<open>n\<close> units of the batch \<open>b\<close>: the batch's own price
  when it has one, and the item's discount in proportion to the units.
\<close>

definition allocation :: "item_req \<Rightarrow> rat \<Rightarrow> rat option \<Rightarrow> batch \<Rightarrow> rat \<Rightarrow> proc_item" where
  "allocation it qty dflt b n =
     (let batchPrice = priceOr (sellingPrice b) dflt;
          batchSubtotal = jsMul (Some n) batchPrice;
          batchDiscount = (if orZero (i_discount it) \<noteq> 0
                           then orZero (i_discount it) * n / qty else 0)
      in \<lparr>pi_product = i_product it, pi_batch = b_id b, pi_quantity = n,
          pi_unitPrice = batchPrice, pi_subtotal = batchSubtotal,
          pi_discount = Some batchDiscount\<rparr>)"

text \<open>
  The loop over \<^verbatim>\<open>availableBatches\<close>: its allocations, what is left to allocate and the
  batch collection after the saves. The running totals the source adds up inside the loop
  are the sums over the allocations (\<open>addSubtotals\<close>, \<open>addDiscounts\<close> below).
\<close>

fun allocate ::
  "item_req \<Rightarrow> rat \<Rightarrow> rat option \<Rightarrow> batch list \<Rightarrow> rat \<Rightarrow> batch list
     \<Rightarrow> proc_item list \<times> rat \<times> batch list" where
  "allocate it qty dflt [] remainingToAllocate bl = ([], remainingToAllocate, bl)"
| "allocate it qty dflt (b # bs) remainingToAllocate bl =
     (if remainingToAllocate \<le> 0 then ([], remainingToAllocate, bl)
      else if currentStock b \<le> 0 then allocate it qty dflt bs remainingToAllocate bl
      else
        let quantityFromBatch = min (currentStock b) remainingToAllocate;
            (al, r, bl') =
               allocate it qty dflt bs (remainingToAllocate - quantityFromBatch)
                 (saveBatch (b\<lparr>currentStock := currentStock b - quantityFromBatch\<rparr>) bl)
        in (allocation it qty dflt b quantityFromBatch # al, r, bl'))"

definition addSubtotals :: "rat option \<Rightarrow> proc_item list \<Rightarrow> rat option" where
  "addSubtotals s al = foldl (\<lambda>acc a. jsAdd acc (pi_subtotal a)) s al"

definition addDiscounts :: "rat \<Rightarrow> proc_item list \<Rightarrow> rat" where
  "addDiscounts s al = foldl (\<lambda>acc a. acc + orZero (pi_discount a)) s al"

record work =
  w_batches :: "batch list"
  processedItems :: "proc_item list"
  calculatedSubtotal :: "rat option"
  totalItemDiscount :: rat

definition quantityOf :: "item_req \<Rightarrow> rat" where
  "quantityOf it = numOrZero (i_quantity it)"

text \<open>The branch for an item that names its batch.\<close>

definition useSpecifiedBatch ::
  "oid \<Rightarrow> item_req \<Rightarrow> rat option \<Rightarrow> oid \<Rightarrow> work \<Rightarrow> response + work" where
  "useSpecifiedBatch sid it dflt bid w =
     (if \<not> isValid bid then Inl (Failure 400 (InvalidBatchId bid))
      else
        (case find (\<lambda>b. b_id b = bid \<and> b_product b = i_product it \<and> b_store b = sid)
                (w_batches w) of
           None \<Rightarrow> Inl (Failure 404 (BatchNotFound bid))
         | Some specifiedBatch \<Rightarrow>
             if currentStock specifiedBatch < quantityOf it
             then Inl (Failure 400 (InsufficientBatchStock (i_product it)
                         (currentStock specifiedBatch) (quantityOf it)))
             else
               let effectivePrice = priceOr (sellingPrice specifiedBatch) dflt;
                   itemSubtotal = jsMul (Some (quantityOf it)) effectivePrice;
                   itemDiscount = orZero (i_discount it)
               in Inr \<lparr>w_batches =
                          saveBatch (specifiedBatch\<lparr>currentStock :=
                             currentStock specifiedBatch - quantityOf it\<rparr>) (w_batches w),
                        processedItems = processedItems w @
                          [\<lparr>pi_product = i_product it, pi_batch = bid,
                            pi_quantity = quantityOf it, pi_unitPrice = effectivePrice,
                            pi_subtotal = itemSubtotal, pi_discount = Some itemDiscount\<rparr>],
                        calculatedSubtotal = jsAdd (calculatedSubtotal w) itemSubtotal,
                        totalItemDiscount = totalItemDiscount w + itemDiscount\<rparr>))"

text \<open>The branch for an item that names no batch.\<close>

definition autoAllocate ::
  "item_req \<Rightarrow> rat option \<Rightarrow> batch list \<Rightarrow> work \<Rightarrow> response + work" where
  "autoAllocate it dflt avail w =
     (case allocate it (quantityOf it) dflt avail (quantityOf it) (w_batches w) of
        (allocations, remainingToAllocate, bl') \<Rightarrow>
          if remainingToAllocate > 0 then Inl (Failure 500 (AllocationFailed (i_product it)))
          else Inr \<lparr>w_batches = bl',
                    processedItems = processedItems w @ allocations,
                    calculatedSubtotal = addSubtotals (calculatedSubtotal w) allocations,
                    totalItemDiscount = addDiscounts (totalItemDiscount w) allocations\<rparr>)"

text \<open>The body of \<^verbatim>\<open>for (const item of items)\<close>.\<close>

definition processItem :: "product list \<Rightarrow> oid \<Rightarrow> item_req \<Rightarrow> work \<Rightarrow> response + work" where
  "processItem ps sid it w =
     (if \<not> isValid (i_product it) then Inl (Failure 400 (InvalidProductId (i_product it)))
      else if invalidQuantity (i_quantity it)
      then Inl (Failure 400 (InvalidQuantity (i_product it)))
      else
        (case find (\<lambda>p. p_id p = i_product it \<and> p_store p = sid) ps of
           None \<Rightarrow> Inl (Failure 404 (ProductNotFound (i_product it)))
         | Some p \<Rightarrow>
             let dflt = defaultEffectivePrice it p;
                 avail = availableBatches (i_product it) sid (w_batches w);
                 totalAvailableStock = foldl (\<lambda>s b. s + currentStock b) 0 avail
             in if avail = [] then Inl (Failure 400 (NoAvailableBatches (i_product it)))
                else if totalAvailableStock < quantityOf it
                then Inl (Failure 400 (InsufficientTotalStock (i_product it)
                            totalAvailableStock (quantityOf it)))
                else (case i_batch it of
                        Some bid \<Rightarrow> useSpecifiedBatch sid it dflt bid w
                      | None \<Rightarrow> autoAllocate it dflt avail w)))"

fun processItems ::
  "product list \<Rightarrow> oid \<Rightarrow> item_req list \<Rightarrow> work \<Rightarrow> response + work" where
  "processItems ps sid [] w = Inr w"
| "processItems ps sid (it # its) w =
     (case processItem ps sid it w of
        Inl r \<Rightarrow> Inl r
      | Inr w' \<Rightarrow> processItems ps sid its w')"

subsection \<open>Discount, reconciliation and the Sale document\<close>

text \<open>
  The checks before the store is looked up; the amounts must have the type number, the
  discount and the tax only when they are given.
\<close>

definition validateRequest :: "sale_req \<Rightarrow> response + (item_req list \<times> payment)" where
  "validateRequest rq =
     (if validationErrors rq \<noteq> [] then Inl (Failure 400 ValidationErrors)
      else
        (case rq_items rq of
           None \<Rightarrow> Inl (Failure 400 NoItems)
         | Some items \<Rightarrow>
             if items = [] then Inl (Failure 400 NoItems)
             else
               (case rq_payment rq of
                  None \<Rightarrow> Inl (Failure 400 PaymentRequired)
                | Some pay \<Rightarrow>
                    if pay_method pay = [] then Inl (Failure 400 PaymentRequired)
                    else if \<not> isNumber (rq_subtotal rq) \<or> \<not> isNumber (rq_total rq)
                            \<or> (rq_discount rq \<noteq> JUndefined \<and> \<not> isNumber (rq_discount rq))
                            \<or> (rq_tax rq \<noteq> JUndefined \<and> \<not> isNumber (rq_tax rq))
                    then Inl (Failure 400 AmountsNotNumbers)
                    else Inr (items, pay))))"

definition discountPercentage :: "sale_req \<Rightarrow> rat" where
  "discountPercentage rq = numOrZero (rq_discount rq)"

text \<open>\<^verbatim>\<open>(calculatedSubtotal * discountPercentage) / 100\<close>\<close>

definition cartDiscountAmount :: "sale_req \<Rightarrow> work \<Rightarrow> rat option" where
  "cartDiscountAmount rq w =
     jsDiv (jsMul (calculatedSubtotal w) (Some (discountPercentage rq))) (Some 100)"

definition calculatedDiscountAmount :: "sale_req \<Rightarrow> work \<Rightarrow> rat option" where
  "calculatedDiscountAmount rq w =
     (if discountPercentage rq > 0
      then jsAdd (Some (totalItemDiscount w)) (cartDiscountAmount rq w)
      else Some (totalItemDiscount w))"

text \<open>
  One step of the loop that spreads the cart discount:
  \<^verbatim>\<open>item.discount = (item.discount || 0) + cartDiscountAmount * (item.subtotal / calculatedSubtotal)\<close>
\<close>

definition distribute :: "rat option \<Rightarrow> rat option \<Rightarrow> proc_item \<Rightarrow> proc_item" where
  "distribute cda cs item =
     (let proportion = jsDiv (pi_subtotal item) cs;
          itemDiscountFromCart = jsMul cda proportion
      in item\<lparr>pi_discount := jsAdd (Some (orZero (pi_discount item))) itemDiscountFromCart\<rparr>)"

definition discountedItems :: "sale_req \<Rightarrow> work \<Rightarrow> proc_item list" where
  "discountedItems rq w =
     (if discountPercentage rq > 0
      then map (distribute (cartDiscountAmount rq w) (calculatedSubtotal w)) (processedItems w)
      else processedItems w)"

text \<open>\<^verbatim>\<open>calculatedSubtotal - calculatedDiscountAmount + (tax || 0)\<close>\<close>

definition calculatedTotal :: "sale_req \<Rightarrow> work \<Rightarrow> rat option" where
  "calculatedTotal rq w =
     jsAdd (jsSub (calculatedSubtotal w) (calculatedDiscountAmount rq w))
       (Some (numOrZero (rq_tax rq)))"

text \<open>
  \<^verbatim>\<open>Math.abs(calculated - submitted) > epsilon\<close> with epsilon 0.01; a comparison with
  NaN is false.
\<close>

definition discrepancy :: "rat option \<Rightarrow> jsval \<Rightarrow> bool" where
  "discrepancy c submitted =
     (case c of None \<Rightarrow> False | Some x \<Rightarrow> \<bar>x - numOrZero submitted\<bar> > 1 / 100)"

definition subtotalDiscrepancy :: "sale_req \<Rightarrow> work \<Rightarrow> bool" where
  "subtotalDiscrepancy rq w = discrepancy (calculatedSubtotal w) (rq_subtotal rq)"

definition totalDiscrepancy :: "sale_req \<Rightarrow> work \<Rightarrow> bool" where
  "totalDiscrepancy rq w = discrepancy (calculatedTotal rq w) (rq_total rq)"

text \<open>
  The body of the status-200 answer. \<^verbatim>\<open>item.unitPrice.toFixed\<close> throws on an undefined
  price and the catch answers 500; a discrepancy needs a numeric subtotal, so that branch
  and the one for a NaN total are never taken.
\<close>

definition recalcItem :: "proc_item \<Rightarrow> recalc_item option" where
  "recalcItem item =
     (case (pi_unitPrice item, pi_subtotal item) of
        (Some up, Some st) \<Rightarrow>
          Some \<lparr>rc_productId = pi_product item, rc_batchId = pi_batch item,
                rc_quantity = pi_quantity item, rc_unitPrice = toFixed2 up,
                rc_subtotal = toFixed2 st,
                rc_discount = toFixed2 (orZero (pi_discount item))\<rparr>
      | _ \<Rightarrow> None)"

fun allSome :: "'a option list \<Rightarrow> 'a list option" where
  "allSome [] = Some []"
| "allSome (None # xs) = None"
| "allSome (Some x # xs) = (case allSome xs of None \<Rightarrow> None | Some ys \<Rightarrow> Some (x # ys))"

definition recalculationResponse :: "sale_req \<Rightarrow> work \<Rightarrow> response" where
  "recalculationResponse rq w =
     (case (calculatedSubtotal w, calculatedDiscountAmount rq w, calculatedTotal rq w,
            allSome (map recalcItem (discountedItems rq w))) of
        (Some cs, Some cd, Some ct, Some ris) \<Rightarrow>
          Recalculation
            \<lparr>recalc_subtotal = toFixed2 cs,
             recalc_discountPercentage = discountPercentage rq,
             recalc_discountAmount = toFixed2 cd,
             recalc_tax = numOrZero (rq_tax rq),
             recalc_total = toFixed2 ct,
             recalc_items = ris,
             original_subtotal = numOrZero (rq_subtotal rq),
             original_total = numOrZero (rq_total rq)\<rparr>
      | _ \<Rightarrow> Failure 500 InternalError)"

definition finalSubtotal :: "sale_req \<Rightarrow> work \<Rightarrow> rat option" where
  "finalSubtotal rq w =
     (if forceCreate rq then calculatedSubtotal w else Some (numOrZero (rq_subtotal rq)))"

definition finalTotal :: "sale_req \<Rightarrow> work \<Rightarrow> rat option" where
  "finalTotal rq w =
     (if forceCreate rq then calculatedTotal rq w else Some (numOrZero (rq_total rq)))"

text \<open>
  \<^verbatim>\<open>finalDiscountAmount\<close> is computed and handed to the Sale constructor as
  \<^verbatim>\<open>discountAmount\<close>. The Sale schema has no such path and the schema is strict, so the
  constructor drops the value: it is neither validated nor stored.
\<close>

definition finalDiscountAmount :: "sale_req \<Rightarrow> work \<Rightarrow> rat option" where
  "finalDiscountAmount rq w =
     (if forceCreate rq then calculatedDiscountAmount rq w
      else Some (numOrZero (rq_subtotal rq) * (discountPercentage rq / 100)
                 + totalItemDiscount w))"

text \<open>
  What the Sale schema makes of an item: quantity, unitPrice and subtotal are required
  numbers, discount is a number, returnedQuantity defaults to 0. An undefined or NaN value
  fails validation.
\<close>

definition toSaleItem :: "proc_item \<Rightarrow> sale_item option" where
  "toSaleItem item =
     (case (pi_unitPrice item, pi_subtotal item, pi_discount item) of
        (Some up, Some st, Some dc) \<Rightarrow>
          Some \<lparr>si_product = pi_product item, si_batch = pi_batch item,
                si_quantity = pi_quantity item, si_unitPrice = up, si_discount = dc,
                si_subtotal = st, si_returnedQuantity = 0\<rparr>
      | _ \<Rightarrow> None)"

definition paymentValid :: "payment \<Rightarrow> bool" where
  "paymentValid pay \<longleftrightarrow>
     pay_method pay \<in> set [''cash'', ''card'', ''mobileBanking'']
     \<and> (case pay_status pay of
           None \<Rightarrow> True
         | Some s \<Rightarrow> s \<in> set [''pending'', ''completed'', ''failed''])"

text \<open>
  \<^verbatim>\<open>new Sale({...})\<close> as \<^verbatim>\<open>save\<close> validates it: \<open>None\<close> is the ValidationError of
  the catch block. Only the paths of the schema are kept, and a payment without a status gets
  the schema default \<^verbatim>\<open>"pending"\<close>.
\<close>

definition storedPayment :: "payment \<Rightarrow> payment" where
  "storedPayment pay =
     pay\<lparr>pay_status := Some (case pay_status pay of None \<Rightarrow> ''pending'' | Some st \<Rightarrow> st)\<rparr>"

definition newSale ::
  "env \<Rightarrow> user \<Rightarrow> oid \<Rightarrow> oid \<Rightarrow> payment \<Rightarrow> sale_req \<Rightarrow> work \<Rightarrow> sale option" where
  "newSale e u sid customerId pay rq w =
     (case (allSome (map toSaleItem (discountedItems rq w)), finalSubtotal rq w,
            finalTotal rq w) of
        (Some items, Some fs, Some ft) \<Rightarrow>
          if paymentValid pay then
            Some \<lparr>sale_id = newSaleId e, sale_store = sid,
                  invoiceNumber = (now e, random1000 e),
                  sale_customer = customerId, sale_items = items,
                  sale_subtotal = toFixed2 fs,
                  sale_discount = discountPercentage rq,
                  sale_tax = numOrZero (rq_tax rq),
                  sale_total = toFixed2 ft,
                  sale_returnTotal = 0,
                  sale_finalTotal = toFixed2 ft,
                  sale_payment = storedPayment pay, sale_staffMember = u_id u,
                  sale_createdAt = now e, sale_returns = []\<rparr>
          else None
      | _ \<Rightarrow> None)"

definition initialWork :: "db \<Rightarrow> work" where
  "initialWork d =
     \<lparr>w_batches = batches d, processedItems = [], calculatedSubtotal = Some 0,
      totalItemDiscount = 0\<rparr>"

text \<open>
  The transaction of createSale: \<open>Inl\<close> is every answer sent after
  \<^verbatim>\<open>abortTransaction\<close> (the recalculation answer among them), \<open>Inr\<close> the saved sale and
  the committed database. The invoice number is unique in the collection: a second sale
  with the same number is a duplicate key.
\<close>

definition createSaleTx :: "env \<Rightarrow> user \<Rightarrow> db \<Rightarrow> sale_req \<Rightarrow> response + (sale \<times> db)" where
  "createSaleTx e u d rq =
     (case validateRequest rq of
        Inl r \<Rightarrow> Inl r
      | Inr (items, pay) \<Rightarrow>
     (case resolveStore u (rq_store rq) d of
        Inl r \<Rightarrow> Inl r
      | Inr storeDoc \<Rightarrow>
     (case resolveCustomer e (st_id storeDoc) (rq_customer rq) d of
        Inl r \<Rightarrow> Inl r
      | Inr (customerId, d1) \<Rightarrow>
     (case processItems (products d1) (st_id storeDoc) items (initialWork d1) of
        Inl r \<Rightarrow> Inl r
      | Inr w \<Rightarrow>
          if (subtotalDiscrepancy rq w \<or> totalDiscrepancy rq w) \<and> \<not> forceCreate rq
          then Inl (recalculationResponse rq w)
          else if \<not> isValid (u_id u) then Inl (Failure 400 InvalidStaffId)
          else
            (case newSale e u (st_id storeDoc) customerId pay rq w of
               None \<Rightarrow> Inl (Failure 400 SchemaValidationError)
             | Some s \<Rightarrow>
                 if \<exists>x \<in> set (sales d1). invoiceNumber x = invoiceNumber s
                 then Inl (Failure 409 DuplicateKey)
                 else Inr (s, d1\<lparr>batches := w_batches w, sales := sales d1 @ [s]\<rparr>))))))"

definition createSale :: "env \<Rightarrow> user \<Rightarrow> db \<Rightarrow> sale_req \<Rightarrow> response \<times> db" where
  "createSale e u d rq =
     (case createSaleTx e u d rq of
        Inl r \<Rightarrow> (r, d)
      | Inr (s, d') \<Rightarrow> (SaleCreated s, d'))"

section \<open>cancelSale\<close>

text \<open>
  \<^verbatim>\<open>for (const item of sale.items)\<close>: the batch of the item, when it still exists, gets
  the item's quantity back.
\<close>

fun restoreInventory :: "sale_item list \<Rightarrow> batch list \<Rightarrow> batch list" where
  "restoreInventory [] bl = bl"
| "restoreInventory (item # items) bl =
     restoreInventory items
       (case find (\<lambda>b. b_id b = si_batch item) bl of
          None \<Rightarrow> bl
        | Some batch \<Rightarrow>
            saveBatch (batch\<lparr>currentStock := currentStock batch + si_quantity item\<rparr>) bl)"

text \<open>\<^verbatim>\<open>(currentDate - saleDate) / (1000 * 60 * 60 * 24)\<close>\<close>

definition daysDifference :: "int \<Rightarrow> int \<Rightarrow> rat" where
  "daysDifference currentDate saleDate =
     of_int (currentDate - saleDate) / (1000 * 60 * 60 * 24)"

text \<open>
  The transaction of cancelSale at the time \<open>currentDate\<close>; \<open>Inl\<close> again is every answer
  after \<^verbatim>\<open>abortTransaction\<close>. \<^verbatim>\<open>findByIdAndDelete\<close> removes the document with the id
  (ids are unique in a collection).
\<close>

definition cancelSaleTx :: "int \<Rightarrow> user \<Rightarrow> db \<Rightarrow> oid \<Rightarrow> response + db" where
  "cancelSaleTx currentDate u d sid =
     (if \<not> isValid sid then Inl (Failure 400 InvalidSaleId)
      else
        (case find (\<lambda>s. sale_id s = sid) (sales d) of
           None \<Rightarrow> Inl (Failure 404 SaleNotFound)
         | Some sale \<Rightarrow>
             (case find (\<lambda>st. st_id st = sale_store sale) (stores d) of
                None \<Rightarrow> Inl (Failure 404 AssociatedStoreNotFound)
              | Some store \<Rightarrow>
                  let isStoreOwner = (st_owner store = u_id u);
                      isAdmin = (u_role u = Admin)
                  in if \<not> isStoreOwner \<and> \<not> isAdmin then Inl (Failure 403 NotOwnerOrAdmin)
                     else if daysDifference currentDate (sale_createdAt sale) > 7
                     then Inl (Failure 400 TooOldToCancel)
                     else Inr (d\<lparr>batches := restoreInventory (sale_items sale) (batches d),
                                 sales := filter (\<lambda>s. sale_id s \<noteq> sid) (sales d)\<rparr>))))"

definition cancelSale :: "int \<Rightarrow> user \<Rightarrow> db \<Rightarrow> oid \<Rightarrow> response \<times> db" where
  "cancelSale currentDate u d sid =
     (case cancelSaleTx currentDate u d sid of
        Inl r \<Rightarrow> (r, d)
      | Inr d' \<Rightarrow> (SaleCanceled, d'))"

section \<open>returnProducts\<close>

text \<open>
  The first loop over \<^verbatim>\<open>returnedItems\<close>: each line needs a product id, a batch id and
  a quantity, the ids well formed, the quantity of type number and above zero. Nothing
  asks for an integer.
\<close>

definition checkLine :: "return_line_req \<Rightarrow> response + returned_line" where
  "checkLine item =
     (case (productId item, batchId item) of
        (Some p, Some b) \<Rightarrow>
          if \<not> truthy (rt_quantity item) then Inl (Failure 400 MissingReturnFields)
          else if \<not> isValid p \<or> \<not> isValid b then Inl (Failure 400 InvalidReturnIds)
          else if \<not> isNumber (rt_quantity item) \<or> numOrZero (rt_quantity item) \<le> 0
          then Inl (Failure 400 QuantityNotPositive)
          else Inr \<lparr>rl_product = p, rl_batch = b, rl_quantity = numOrZero (rt_quantity item)\<rparr>
      | _ \<Rightarrow> Inl (Failure 400 MissingReturnFields))"

fun checkLines :: "return_line_req list \<Rightarrow> response + returned_line list" where
  "checkLines [] = Inr []"
| "checkLines (item # items) =
     (case checkLine item of
        Inl r \<Rightarrow> Inl r
      | Inr l \<Rightarrow> (case checkLines items of Inl r \<Rightarrow> Inl r | Inr ls \<Rightarrow> Inr (l # ls)))"

definition validateReturn :: "return_req \<Rightarrow> response + returned_line list" where
  "validateReturn rq =
     (if rt_validationErrors rq \<noteq> [] then Inl (Failure 400 ValidationErrors)
      else if \<not> isValid (saleId rq) then Inl (Failure 400 InvalidSaleId)
      else if (case storeId rq of None \<Rightarrow> False | Some s \<Rightarrow> \<not> isValid s)
      then Inl (Failure 400 InvalidStoreId)
      else
        (case returnedItems rq of
           None \<Rightarrow> Inl (Failure 400 NoReturnedItems)
         | Some items \<Rightarrow>
             if items = [] then Inl (Failure 400 NoReturnedItems) else checkLines items))"

text \<open>The state of the second loop: the batches, the sale in memory and the two sums.\<close>

record ret_state =
  rs_batches :: "batch list"
  rs_items :: "sale_item list"
  rs_summary :: "return_summary_line list"
  rs_total :: rat

definition matches :: "returned_line \<Rightarrow> sale_item \<Rightarrow> bool" where
  "matches returnItem item \<longleftrightarrow>
     si_product item = rl_product returnItem \<and> si_batch item = rl_batch returnItem"

text \<open>
  \<^verbatim>\<open>originalItem.returnedQuantity += returnItem.quantity\<close> changes the item that
  \<^verbatim>\<open>sale.items.find\<close> returned, the first that matches.
\<close>

fun addReturned :: "returned_line \<Rightarrow> sale_item list \<Rightarrow> sale_item list" where
  "addReturned returnItem [] = []"
| "addReturned returnItem (item # items) =
     (if matches returnItem item
      then item\<lparr>si_returnedQuantity := si_returnedQuantity item + rl_quantity returnItem\<rparr>
           # items
      else item # addReturned returnItem items)"

text \<open>\<^verbatim>\<open>originalItem.discount ? originalItem.discount / originalItem.quantity : 0\<close>\<close>

definition discountPerUnit :: "sale_item \<Rightarrow> rat option" where
  "discountPerUnit originalItem =
     (if si_discount originalItem \<noteq> 0
      then jsDiv (Some (si_discount originalItem)) (Some (si_quantity originalItem))
      else Some 0)"

text \<open>
  The body of \<^verbatim>\<open>for (const returnItem of returnedItems)\<close>. A line that passes the two
  quantity checks has a purchased quantity above zero, so the discount per unit is a
  number; the \<open>None\<close> branch is never taken.
\<close>

definition returnLine ::
  "product list \<Rightarrow> returned_line \<Rightarrow> ret_state \<Rightarrow> response + ret_state" where
  "returnLine ps returnItem st =
     (case find (matches returnItem) (rs_items st) of
        None \<Rightarrow>
          Inl (Failure 400 (ItemNotInSale (rl_product returnItem) (rl_batch returnItem)))
      | Some originalItem \<Rightarrow>
          if rl_quantity returnItem > si_quantity originalItem
          then Inl (Failure 400 (ReturnExceedsPurchased (rl_product returnItem)))
          else if si_returnedQuantity originalItem \<noteq> 0
                  \<and> si_returnedQuantity originalItem + rl_quantity returnItem
                      > si_quantity originalItem
          then Inl (Failure 400 (AlreadyReturned (rl_product returnItem)))
          else
            (case find (\<lambda>b. b_id b = rl_batch returnItem) (rs_batches st) of
               None \<Rightarrow> Inl (Failure 404 (BatchNotFound (rl_batch returnItem)))
             | Some batch \<Rightarrow>
                 (case find (\<lambda>p. p_id p = rl_product returnItem) ps of
                    None \<Rightarrow> Inl (Failure 404 (ProductNotFound (rl_product returnItem)))
                  | Some product \<Rightarrow>
                      (case discountPerUnit originalItem of
                         None \<Rightarrow> Inl (Failure 500 InternalError)
                       | Some dpu \<Rightarrow>
                           let effectiveUnitPrice = si_unitPrice originalItem - dpu;
                               itemRefundAmount = effectiveUnitPrice * rl_quantity returnItem
                           in Inr \<lparr>rs_batches =
                                     saveBatch (batch\<lparr>currentStock :=
                                        currentStock batch + rl_quantity returnItem\<rparr>)
                                       (rs_batches st),
                                   rs_items = addReturned returnItem (rs_items st),
                                   rs_summary = rs_summary st @
                                     [\<lparr>rs_product = p_id product,
                                       rs_batch = (if batchNumber batch \<noteq> []
                                                   then Inl (batchNumber batch)
                                                   else Inr (rl_batch returnItem)),
                                       rs_returnedQuantity = rl_quantity returnItem,
                                       rs_unitPrice = si_unitPrice originalItem,
                                       rs_discountPerUnit = dpu,
                                       rs_effectiveUnitPrice = effectiveUnitPrice,
                                       rs_refundAmount = itemRefundAmount\<rparr>],
                                   rs_total = rs_total st + itemRefundAmount\<rparr>))))"

fun returnLines ::
  "product list \<Rightarrow> returned_line list \<Rightarrow> ret_state \<Rightarrow> response + ret_state" where
  "returnLines ps [] st = Inr st"
| "returnLines ps (l # ls) st =
     (case returnLine ps l st of
        Inl r \<Rightarrow> Inl r
      | Inr st' \<Rightarrow> returnLines ps ls st')"

definition RETURN_WINDOW_DAYS :: rat where
  "RETURN_WINDOW_DAYS = 30"

text \<open>The sale after the loop: the return record appended, the two totals updated.\<close>

definition recordReturn ::
  "int \<Rightarrow> user \<Rightarrow> return_req \<Rightarrow> returned_line list \<Rightarrow> ret_state \<Rightarrow> sale \<Rightarrow> sale" where
  "recordReturn currentDate u rq ls st sale =
     sale\<lparr>sale_items := rs_items st,
          sale_returns := sale_returns sale @
            [\<lparr>ret_date = currentDate, ret_items = ls,
              ret_reason = (case reason rq of
                              None \<Rightarrow> ''No reason provided''
                            | Some r \<Rightarrow> if r = [] then ''No reason provided'' else r),
              ret_processedBy = u_id u, ret_refundAmount = rs_total st\<rparr>],
          sale_returnTotal := sale_returnTotal sale + rs_total st,
          sale_finalTotal := sale_total sale - (sale_returnTotal sale + rs_total st)\<rparr>"

definition saveSale :: "sale \<Rightarrow> sale list \<Rightarrow> sale list" where
  "saveSale doc sl = map (\<lambda>x. if sale_id x = sale_id doc then doc else x) sl"

definition returnProductsTx ::
  "int \<Rightarrow> user \<Rightarrow> db \<Rightarrow> return_req \<Rightarrow> response + (return_result \<times> db)" where
  "returnProductsTx currentDate u d rq =
     (case validateReturn rq of
        Inl r \<Rightarrow> Inl r
      | Inr ls \<Rightarrow>
     (case find (\<lambda>s. sale_id s = saleId rq
                      \<and> (case storeId rq of None \<Rightarrow> True | Some x \<Rightarrow> sale_store s = x))
             (sales d) of
        None \<Rightarrow> Inl (Failure 404 SaleNotFound)
      | Some sale \<Rightarrow>
     (case find (\<lambda>st. st_id st = sale_store sale) (stores d) of
        None \<Rightarrow> Inl (Failure 404 StoreNotFound)
      | Some storeDoc \<Rightarrow>
          let isStoreOwner = (st_owner storeDoc = u_id u);
              isStoreStaff = (u_id u \<in> set (st_staff storeDoc));
              isAdmin = (u_role u = Admin)
          in if \<not> isStoreOwner \<and> \<not> isStoreStaff \<and> \<not> isAdmin
             then Inl (Failure 403 NoReturnPermission)
             else if daysDifference currentDate (sale_createdAt sale) > RETURN_WINDOW_DAYS
             then Inl (Failure 400 ReturnWindowExpired)
             else
               (case returnLines (products d) ls
                       \<lparr>rs_batches = batches d, rs_items = sale_items sale,
                        rs_summary = [], rs_total = 0\<rparr> of
                  Inl r \<Rightarrow> Inl r
                | Inr st \<Rightarrow>
                    let sale' = recordReturn currentDate u rq ls st sale
                    in Inr (\<lparr>rr_invoiceNumber = invoiceNumber sale',
                             rr_storeId = sale_store sale',
                             returnSummary = rs_summary st,
                             totalRefundAmount = rs_total st,
                             updatedSaleTotal = sale_finalTotal sale'\<rparr>,
                            d\<lparr>batches := rs_batches st,
                              sales := saveSale sale' (sales d)\<rparr>)))))"

definition returnProducts :: "int \<Rightarrow> user \<Rightarrow> db \<Rightarrow> return_req \<Rightarrow> response \<times> db" where
  "returnProducts currentDate u d rq =
     (case returnProductsTx currentDate u d rq of
        Inl r \<Rightarrow> (r, d)
      | Inr (res, d') \<Rightarrow> (ProductsReturned res, d'))"

section \<open>Notions of the statements\<close>


text \<open>The quantity the items of a sale hold of the batch with the id \<open>bid\<close>.\<close>

definition restoredTo :: "sale_item list \<Rightarrow> oid \<Rightarrow> rat" where
  "restoredTo items bid = sum_list (map si_quantity (filter (\<lambda>i. si_batch i = bid) items))"

text \<open>An entry of \<^verbatim>\<open>processedItems\<close> whose price and subtotal are numbers.\<close>

definition priced :: "proc_item \<Rightarrow> bool" where
  "priced x \<longleftrightarrow> pi_unitPrice x \<noteq> None \<and> pi_subtotal x \<noteq> None"

section \<open>The scenario of the specification\<close>

text \<open>
  Product P of one store has the batches B1 (expiry 2025-01-01, stock 5, price 10) and B2
  (expiry 2025-06-01, stock 10, price 12); the collection holds B2 before B1. The owner of
  the store sells 8 units at a submitted unit price of 10, naming no batch and no discount.
\<close>

definition storeS :: store where
  "storeS = \<lparr>st_id = Oid 1, st_owner = Oid 10, st_staff = [Oid 11]\<rparr>"

definition ownerU :: user where
  "ownerU = \<lparr>u_id = Oid 10, u_role = Owner\<rparr>"

definition productP :: product where
  "productP = \<lparr>p_id = Oid 100, p_store = Oid 1, p_name = ''P'', p_sellingPrice = None\<rparr>"

definition batchB1 :: batch where
  "batchB1 = \<lparr>b_id = Oid 201, b_product = Oid 100, b_store = Oid 1, batchNumber = ''B1'',
              expiryDate = 1735689600000, sellingPrice = 10, currentStock = 5,
              initialStock = 5\<rparr>"

definition batchB2 :: batch where
  "batchB2 = \<lparr>b_id = Oid 202, b_product = Oid 100, b_store = Oid 1, batchNumber = ''B2'',
              expiryDate = 1748736000000, sellingPrice = 12, currentStock = 10,
              initialStock = 10\<rparr>"

definition walkIn :: customer where
  "walkIn = \<lparr>c_id = Oid 300, c_store = Oid 1, c_name = ''Walk-in Customer'',
             c_email = JNull, c_phoneNumber = JNull\<rparr>"

definition db0 :: db where
  "db0 = \<lparr>stores = [storeS], customers = [], products = [productP],
          batches = [batchB2, batchB1], sales = []\<rparr>"

definition env0 :: env where
  "env0 = \<lparr>now = 1700000000000, random1000 = 7, newCustomerId = Oid 300,
           newSaleId = Oid 400\<rparr>"

definition cash :: payment where
  "cash = \<lparr>pay_method = ''cash'', pay_status = Some ''completed''\<rparr>"

definition itemP :: "rat \<Rightarrow> item_req" where
  "itemP n = \<lparr>i_product = Oid 100, i_quantity = JNum n, i_unitPrice = Some 10, i_price = None,
               i_batch = None, i_discount = None\<rparr>"

definition saleOf :: "item_req list \<Rightarrow> rat \<Rightarrow> rat \<Rightarrow> sale_req" where
  "saleOf items st tot =
     \<lparr>validationErrors = [], rq_store = None, rq_customer = None, rq_items = Some items,
      rq_subtotal = JNum st, rq_discount = JUndefined, rq_tax = JUndefined,
      rq_total = JNum tot, rq_payment = Some cash, forceCreate = False\<rparr>"

text \<open>What the sale of the 8 units stores: the two allocations and the totals.\<close>

definition sale8 :: sale where
  "sale8 =
     \<lparr>sale_id = Oid 400, sale_store = Oid 1, invoiceNumber = (1700000000000, 7),
      sale_customer = Oid 300,
      sale_items =
        [\<lparr>si_product = Oid 100, si_batch = Oid 201, si_quantity = 5, si_unitPrice = 10,
          si_discount = 0, si_subtotal = 50, si_returnedQuantity = 0\<rparr>,
         \<lparr>si_product = Oid 100, si_batch = Oid 202, si_quantity = 3, si_unitPrice = 12,
          si_discount = 0, si_subtotal = 36, si_returnedQuantity = 0\<rparr>],
      sale_subtotal = 86, sale_discount = 0, sale_tax = 0,
      sale_total = 86, sale_returnTotal = 0, sale_finalTotal = 86, sale_payment = cash,
      sale_staffMember = Oid 10, sale_createdAt = 1700000000000, sale_returns = []\<rparr>"

definition db1 :: db where
  "db1 = \<lparr>stores = [storeS], customers = [walkIn], products = [productP],
          batches = [batchB2\<lparr>currentStock := 7\<rparr>, batchB1\<lparr>currentStock := 0\<rparr>],
          sales = [sale8]\<rparr>"

text \<open>The state of the item loop after the 8 units.\<close>

definition work8 :: work where
  "work8 =
     \<lparr>w_batches = [batchB2\<lparr>currentStock := 7\<rparr>, batchB1\<lparr>currentStock := 0\<rparr>],
      processedItems =
        [\<lparr>pi_product = Oid 100, pi_batch = Oid 201, pi_quantity = 5, pi_unitPrice = Some 10,
          pi_subtotal = Some 50, pi_discount = Some 0\<rparr>,
         \<lparr>pi_product = Oid 100, pi_batch = Oid 202, pi_quantity = 3, pi_unitPrice = Some 12,
          pi_subtotal = Some 36, pi_discount = Some 0\<rparr>],
      calculatedSubtotal = Some 86, totalItemDiscount = 0\<rparr>"

text \<open>The database once the walk-in customer exists, and the item loop after 5 units.\<close>

definition dbW :: db where
  "dbW = db0\<lparr>customers := [walkIn]\<rparr>"

definition work5 :: work where
  "work5 =
     \<lparr>w_batches = [batchB2, batchB1\<lparr>currentStock := 0\<rparr>],
      processedItems =
        [\<lparr>pi_product = Oid 100, pi_batch = Oid 201, pi_quantity = 5, pi_unitPrice = Some 10,
          pi_subtotal = Some 50, pi_discount = Some 0\<rparr>],
      calculatedSubtotal = Some 50, totalItemDiscount = 0\<rparr>"

definition itemFrom :: "oid \<Rightarrow> rat \<Rightarrow> item_req" where
  "itemFrom bid n = (itemP n)\<lparr>i_batch := Some bid\<rparr>"

text \<open>
  The same cart forced through with a cart discount of 0.125 percent and submitted totals
  of 0, and the sale it stores.
\<close>

definition forced :: sale_req where
  "forced = (saleOf [itemP 8] 0 0)\<lparr>rq_discount := JNum (1 / 8), forceCreate := True\<rparr>"

definition saleF :: sale where
  "saleF =
     sale8\<lparr>sale_items :=
             [\<lparr>si_product = Oid 100, si_batch = Oid 201, si_quantity = 5, si_unitPrice = 10,
               si_discount = 1 / 16, si_subtotal = 50, si_returnedQuantity = 0\<rparr>,
              \<lparr>si_product = Oid 100, si_batch = Oid 202, si_quantity = 3, si_unitPrice = 12,
               si_discount = 9 / 200, si_subtotal = 36, si_returnedQuantity = 0\<rparr>],
           sale_discount := 1 / 8, sale_total := 8589 / 100,
           sale_finalTotal := 8589 / 100\<rparr>"

text \<open>
  The return of 2 units of the B2 allocation ten minutes after the sale, by the owner: the
  request, the sale and the database after it, and the answer.
\<close>

definition returnOf :: "(oid \<times> rat) list \<Rightarrow> return_req" where
  "returnOf lines =
     \<lparr>rt_validationErrors = [], saleId = Oid 400, storeId = None,
      returnedItems =
        Some (map (\<lambda>(b, n). \<lparr>productId = Some (Oid 100), batchId = Some b,
                               rt_quantity = JNum n\<rparr>) lines),
      reason = None\<rparr>"

definition lineOf :: "oid \<Rightarrow> rat \<Rightarrow> returned_line" where
  "lineOf b n = \<lparr>rl_product = Oid 100, rl_batch = b, rl_quantity = n\<rparr>"

definition sale8r :: sale where
  "sale8r =
     sale8\<lparr>sale_items :=
             [\<lparr>si_product = Oid 100, si_batch = Oid 201, si_quantity = 5, si_unitPrice = 10,
               si_discount = 0, si_subtotal = 50, si_returnedQuantity = 0\<rparr>,
              \<lparr>si_product = Oid 100, si_batch = Oid 202, si_quantity = 3, si_unitPrice = 12,
               si_discount = 0, si_subtotal = 36, si_returnedQuantity = 2\<rparr>],
           sale_returnTotal := 24, sale_finalTotal := 62,
           sale_returns :=
             [\<lparr>ret_date = 1700000600000, ret_items = [lineOf (Oid 202) 2],
               ret_reason = ''No reason provided'', ret_processedBy = Oid 10,
               ret_refundAmount = 24\<rparr>]\<rparr>"

definition db2 :: db where
  "db2 = db1\<lparr>batches := [batchB2\<lparr>currentStock := 9\<rparr>, batchB1\<lparr>currentStock := 0\<rparr>],
             sales := [sale8r]\<rparr>"

definition result2 :: return_result where
  "result2 =
     \<lparr>rr_invoiceNumber = (1700000000000, 7), rr_storeId = Oid 1,
      returnSummary =
        [\<lparr>rs_product = Oid 100, rs_batch = Inl ''B2'', rs_returnedQuantity = 2,
          rs_unitPrice = 12, rs_discountPerUnit = 0, rs_effectiveUnitPrice = 12,
          rs_refundAmount = 24\<rparr>],
      totalRefundAmount = 24, updatedSaleTotal = 62\<rparr>"

text \<open>The state of the return loop after one unit of B1, and after the two units of B2.\<close>

definition state1 :: ret_state where
  "state1 =
     \<lparr>rs_batches = [batchB2\<lparr>currentStock := 9\<rparr>, batchB1\<lparr>currentStock := 1\<rparr>],
      rs_items =
        [\<lparr>si_product = Oid 100, si_batch = Oid 201, si_quantity = 5, si_unitPrice = 10,
          si_discount = 0, si_subtotal = 50, si_returnedQuantity = 1\<rparr>,
         \<lparr>si_product = Oid 100, si_batch = Oid 202, si_quantity = 3, si_unitPrice = 12,
          si_discount = 0, si_subtotal = 36, si_returnedQuantity = 2\<rparr>],
      rs_summary =
        [\<lparr>rs_product = Oid 100, rs_batch = Inl ''B1'', rs_returnedQuantity = 1,
          rs_unitPrice = 10, rs_discountPerUnit = 0, rs_effectiveUnitPrice = 10,
          rs_refundAmount = 10\<rparr>],
      rs_total = 10\<rparr>"


text \<open>Ten days after the sale, and a little after the return.\<close>

definition t10 :: int where
  "t10 = 1700000000000 + 10 * 86400000"

definition t2 :: int where
  "t2 = 1700000700000"

text \<open>A member of the staff of the store, who does not own it.\<close>

definition staffU :: user where
  "staffU = \<lparr>u_id = Oid 11, u_role = Staff\<rparr>"

section \<open>Allocation: first expiry first out\<close>

lemma foldl_add_stock: "foldl (\<lambda>s b. s + currentStock b) a bs = a + sum_list (map currentStock bs)"
  by (induction bs arbitrary: a) (simp_all add: add.assoc)

lemma allocation_sel [simp]:
  "pi_product (allocation it q dflt b n) = i_product it"
  "pi_batch (allocation it q dflt b n) = b_id b"
  "pi_quantity (allocation it q dflt b n) = n"
  "pi_unitPrice (allocation it q dflt b n) = priceOr (sellingPrice b) dflt"
  "pi_subtotal (allocation it q dflt b n) = jsMul (Some n) (priceOr (sellingPrice b) dflt)"
  by (simp_all add: allocation_def Let_def)

lemma allocate_nonpos: "r \<le> 0 \<Longrightarrow> allocate it q dflt bs r bl = ([], r, bl)"
  by (cases bs) simp_all

lemma allocate_skip:
  "\<not> r \<le> 0 \<Longrightarrow> currentStock b \<le> 0 \<Longrightarrow>
   allocate it q dflt (b # bs) r bl = allocate it q dflt bs r bl"
  by simp

lemma allocate_take:
  assumes "\<not> r \<le> 0" and "\<not> currentStock b \<le> 0"
  shows "allocate it q dflt (b # bs) r bl =
     (let n = min (currentStock b) r;
          rest = allocate it q dflt bs (r - n) (saveBatch (b\<lparr>currentStock := currentStock b - n\<rparr>) bl)
      in (allocation it q dflt b n # fst rest, fst (snd rest), snd (snd rest)))"
  using assms by (simp add: Let_def case_prod_beta)





lemma availableBatches_pos: "\<forall>b \<in> set (availableBatches pid sid bl). currentStock b > 0"
  by (simp add: availableBatches_def)



lemma saveBatch_stock:
  assumes "distinct (map b_id bl)" and "b \<in> set bl"
  shows "saveBatch (b\<lparr>currentStock := currentStock b + n\<rparr>) bl
         = map (\<lambda>x. if b_id x = b_id b then x\<lparr>currentStock := currentStock x + n\<rparr> else x) bl"
proof -
  have "\<forall>x \<in> set bl. b_id x = b_id b \<longrightarrow> x = b"
    using assms by (meson distinct_map inj_onD)
  then show ?thesis by (auto simp: saveBatch_def)
qed




lemma quantity_positive: "\<not> invalidQuantity v \<Longrightarrow> 0 < numOrZero v"
  by (cases v) (auto simp: invalidQuantity_def)

lemma processItem_auto:
  assumes "i_batch it = None" and "processItem ps sid it w = Inr w'"
  shows "\<exists>p. find (\<lambda>p. p_id p = i_product it \<and> p_store p = sid) ps = Some p
           \<and> 0 < quantityOf it
           \<and> autoAllocate it (defaultEffectivePrice it p)
                (availableBatches (i_product it) sid (w_batches w)) w = Inr w'"
  using assms
  by (auto simp: processItem_def Let_def quantityOf_def quantity_positive
           split: if_splits option.splits)

lemma autoAllocate_Inr:
  assumes "autoAllocate it dflt avail w = Inr w'"
  shows "processedItems w' = processedItems w @ fst (allocate it (quantityOf it) dflt avail (quantityOf it) (w_batches w))"
    and "w_batches w' = snd (snd (allocate it (quantityOf it) dflt avail (quantityOf it) (w_batches w)))"
    and "fst (snd (allocate it (quantityOf it) dflt avail (quantityOf it) (w_batches w))) \<le> 0"
    and "calculatedSubtotal w' = addSubtotals (calculatedSubtotal w) (fst (allocate it (quantityOf it) dflt avail (quantityOf it) (w_batches w)))"
    and "totalItemDiscount w' = addDiscounts (totalItemDiscount w) (fst (allocate it (quantityOf it) dflt avail (quantityOf it) (w_batches w)))"
  using assms
  by (auto simp: autoAllocate_def split: prod.splits if_splits)




section \<open>createSale: failures and rollback\<close>

lemma processItems_append:
  "processItems ps sid (xs @ ys) w =
     (case processItems ps sid xs w of Inl r \<Rightarrow> Inl r | Inr w' \<Rightarrow> processItems ps sid ys w')"
  by (induction xs arbitrary: w) (auto split: sum.splits)

lemma createSale_item_failure:
  assumes "validateRequest rq = Inr (pre @ it # post, pay)"
      and "resolveStore u (rq_store rq) d = Inr storeDoc"
      and "resolveCustomer e (st_id storeDoc) (rq_customer rq) d = Inr (cid, d1)"
      and "processItems (products d1) (st_id storeDoc) pre (initialWork d1) = Inr w"
      and "processItem (products d1) (st_id storeDoc) it w = Inl r"
  shows "createSale e u d rq = (r, d)"
  using assms by (simp add: createSale_def createSaleTx_def processItems_append)

lemma processItem_short:
  assumes "isValid (i_product it)" and "\<not> invalidQuantity (i_quantity it)"
      and "find (\<lambda>p. p_id p = i_product it \<and> p_store p = sid) ps = Some p"
      and "avail = availableBatches (i_product it) sid (w_batches w)"
      and "sum_list (map currentStock avail) < quantityOf it"
  shows "processItem ps sid it w =
           Inl (Failure 400 (if avail = [] then NoAvailableBatches (i_product it)
                else InsufficientTotalStock (i_product it)
                       (sum_list (map currentStock avail)) (quantityOf it)))"
  using assms by (simp add: processItem_def Let_def foldl_add_stock)

text \<open>
  Claim C3. When the batches of an item's product that have stock hold less in total than
  the item asks for, createSale answers 400 with the insufficient-stock failure of that
  product (the no-available-batches message when no batch has any stock, the
  insufficient-total-stock message otherwise) and returns the database it was called
  with, whatever the items before it in the cart had taken from their batches inside the
  transaction.
\<close>

theorem C3_insufficient_stock_rolls_back:
  assumes "validateRequest rq = Inr (pre @ it # post, pay)"
      and "resolveStore u (rq_store rq) d = Inr storeDoc"
      and "resolveCustomer e (st_id storeDoc) (rq_customer rq) d = Inr (cid, d1)"
      and "processItems (products d1) (st_id storeDoc) pre (initialWork d1) = Inr w"
      and "isValid (i_product it)" and "\<not> invalidQuantity (i_quantity it)"
      and "find (\<lambda>p. p_id p = i_product it \<and> p_store p = st_id storeDoc) (products d1) = Some p"
      and "avail = availableBatches (i_product it) (st_id storeDoc) (w_batches w)"
      and "sum_list (map currentStock avail) < quantityOf it"
  shows "createSale e u d rq =
           (Failure 400 (if avail = [] then NoAvailableBatches (i_product it)
                else InsufficientTotalStock (i_product it)
                       (sum_list (map currentStock avail)) (quantityOf it)), d)"
  by (rule createSale_item_failure[OF assms(1-4)]) (rule processItem_short[OF assms(5-9)])

theorem C3_insufficient_stock_rolls_back_witness:
  "createSale env0 ownerU db0 (saleOf [itemP 5, itemP 20] 70 70)
     = (Failure 400 (InsufficientTotalStock (Oid 100) 10 20), db0)
   \<and> processItems (products dbW) (Oid 1) [itemP 5] (initialWork dbW) = Inr work5
   \<and> map currentStock (w_batches work5) = [10, 0]
   \<and> map currentStock (batches db0) = [10, 5]"
proof -
  have h1: "validateRequest (saleOf [itemP 5, itemP 20] 70 70) = Inr ([itemP 5] @ itemP 20 # [], cash)"
    by code_simp
  have h2: "resolveStore ownerU (rq_store (saleOf [itemP 5, itemP 20] 70 70)) db0 = Inr storeS"
    by code_simp
  have h3: "resolveCustomer env0 (st_id storeS) (rq_customer (saleOf [itemP 5, itemP 20] 70 70)) db0
            = Inr (Oid 300, dbW)"
    by code_simp
  have h4: "processItems (products dbW) (st_id storeS) [itemP 5] (initialWork dbW) = Inr work5"
    by code_simp
  have h5: "isValid (i_product (itemP 20))" by code_simp
  have h6: "\<not> invalidQuantity (i_quantity (itemP 20))" by code_simp
  have h7: "find (\<lambda>p. p_id p = i_product (itemP 20) \<and> p_store p = st_id storeS) (products dbW)
            = Some productP"
    by code_simp
  have h8: "[batchB2] = availableBatches (i_product (itemP 20)) (st_id storeS) (w_batches work5)"
    by code_simp
  have h9: "sum_list (map currentStock [batchB2]) < quantityOf (itemP 20)"
    by code_simp
  have "createSale env0 ownerU db0 (saleOf [itemP 5, itemP 20] 70 70)
          = (Failure 400 (InsufficientTotalStock (Oid 100) 10 20), db0)"
    using C3_insufficient_stock_rolls_back[OF h1 h2 h3 h4 h5 h6 h7 h8 h9]
    by (simp add: itemP_def quantityOf_def batchB2_def)
  moreover have "processItems (products dbW) (Oid 1) [itemP 5] (initialWork dbW) = Inr work5"
    using h4 by (simp add: storeS_def)
  moreover have "map currentStock (w_batches work5) = [10, 0]"
    by (simp add: work5_def batchB1_def batchB2_def)
  moreover have "map currentStock (batches db0) = [10, 5]"
    by (simp add: db0_def batchB1_def batchB2_def)
  ultimately show ?thesis by simp
qed

lemma stock_le_sum:
  "\<forall>b \<in> set bs. 0 < currentStock b \<Longrightarrow> x \<in> set bs \<Longrightarrow>
   currentStock x \<le> sum_list (map currentStock bs)"
proof (induction bs)
  case Nil
  then show ?case by simp
next
  case (Cons b bs)
  have "0 \<le> sum_list (map currentStock bs)"
    using Cons.prems(1) by (intro sum_list_nonneg) auto
  with Cons show ?case by (cases "x = b") auto
qed

lemma specified_in_available:
  assumes "find (\<lambda>b. b_id b = bid \<and> b_product b = pid \<and> b_store b = sid) bl = Some sb"
      and "0 < currentStock sb"
  shows "sb \<in> set (availableBatches pid sid bl)"
  using assms by (auto simp: availableBatches_def find_Some_iff)

text \<open>
  Claim C4, as the code has it. An item that names a batch holding less than the requested
  quantity makes createSale fail and return the database unchanged, and nothing is taken
  from any other batch; the failure is the insufficient-batch-stock one when the batches
  of the product hold the requested quantity in total, and otherwise the total-stock check
  that runs first answers (no available batches, or insufficient total stock). When the
  named batch holds the requested quantity, the item becomes one allocation of the whole
  quantity from that batch, whose stock is reduced by it.
\<close>

theorem C4_explicit_batch:
  assumes "validateRequest rq = Inr (pre @ it # post, pay)"
      and "resolveStore u (rq_store rq) d = Inr storeDoc"
      and "resolveCustomer e (st_id storeDoc) (rq_customer rq) d = Inr (cid, d1)"
      and "processItems (products d1) (st_id storeDoc) pre (initialWork d1) = Inr w"
      and "isValid (i_product it)" and "\<not> invalidQuantity (i_quantity it)"
      and "find (\<lambda>p. p_id p = i_product it \<and> p_store p = st_id storeDoc) (products d1) = Some p"
      and "i_batch it = Some bid" and "isValid bid"
      and "find (\<lambda>b. b_id b = bid \<and> b_product b = i_product it \<and> b_store b = st_id storeDoc)
             (w_batches w) = Some sb"
      and "avail = availableBatches (i_product it) (st_id storeDoc) (w_batches w)"
  shows "(currentStock sb < quantityOf it \<longrightarrow>
            createSale e u d rq =
              (Failure 400
                 (if avail = [] then NoAvailableBatches (i_product it)
                  else if sum_list (map currentStock avail) < quantityOf it
                  then InsufficientTotalStock (i_product it)
                         (sum_list (map currentStock avail)) (quantityOf it)
                  else InsufficientBatchStock (i_product it) (currentStock sb) (quantityOf it)),
               d))
       \<and> (quantityOf it \<le> currentStock sb \<longrightarrow>
            processItem (products d1) (st_id storeDoc) it w =
              Inr \<lparr>w_batches =
                     saveBatch (sb\<lparr>currentStock := currentStock sb - quantityOf it\<rparr>)
                       (w_batches w),
                   processedItems = processedItems w @
                     [\<lparr>pi_product = i_product it, pi_batch = bid, pi_quantity = quantityOf it,
                       pi_unitPrice = priceOr (sellingPrice sb) (defaultEffectivePrice it p),
                       pi_subtotal = jsMul (Some (quantityOf it))
                                       (priceOr (sellingPrice sb) (defaultEffectivePrice it p)),
                       pi_discount = Some (orZero (i_discount it))\<rparr>],
                   calculatedSubtotal =
                     jsAdd (calculatedSubtotal w)
                       (jsMul (Some (quantityOf it))
                          (priceOr (sellingPrice sb) (defaultEffectivePrice it p))),
                   totalItemDiscount = totalItemDiscount w + orZero (i_discount it)\<rparr>)"
proof (intro conjI impI)
  assume less: "currentStock sb < quantityOf it"
  have "processItem (products d1) (st_id storeDoc) it w =
          Inl (Failure 400
                 (if avail = [] then NoAvailableBatches (i_product it)
                  else if sum_list (map currentStock avail) < quantityOf it
                  then InsufficientTotalStock (i_product it)
                         (sum_list (map currentStock avail)) (quantityOf it)
                  else InsufficientBatchStock (i_product it) (currentStock sb) (quantityOf it)))"
    using assms(5-11) less
    by (simp add: processItem_def Let_def foldl_add_stock useSpecifiedBatch_def)
  then show "createSale e u d rq =
              (Failure 400
                 (if avail = [] then NoAvailableBatches (i_product it)
                  else if sum_list (map currentStock avail) < quantityOf it
                  then InsufficientTotalStock (i_product it)
                         (sum_list (map currentStock avail)) (quantityOf it)
                  else InsufficientBatchStock (i_product it) (currentStock sb) (quantityOf it)),
               d)"
    by (rule createSale_item_failure[OF assms(1-4)])
next
  assume ge: "quantityOf it \<le> currentStock sb"
  have q: "0 < quantityOf it"
    using assms(6) by (simp add: quantityOf_def quantity_positive)
  with ge have pos: "0 < currentStock sb" by simp
  have mem: "sb \<in> set avail"
    unfolding assms(11) by (rule specified_in_available[OF assms(10) pos])
  then have ne: "avail \<noteq> []" by auto
  have "currentStock sb \<le> sum_list (map currentStock avail)"
    using mem by (intro stock_le_sum) (simp_all add: assms(11) availableBatches_pos)
  with ge have tot: "\<not> sum_list (map currentStock avail) < quantityOf it" by simp
  show "processItem (products d1) (st_id storeDoc) it w =
              Inr \<lparr>w_batches =
                     saveBatch (sb\<lparr>currentStock := currentStock sb - quantityOf it\<rparr>)
                       (w_batches w),
                   processedItems = processedItems w @
                     [\<lparr>pi_product = i_product it, pi_batch = bid, pi_quantity = quantityOf it,
                       pi_unitPrice = priceOr (sellingPrice sb) (defaultEffectivePrice it p),
                       pi_subtotal = jsMul (Some (quantityOf it))
                                       (priceOr (sellingPrice sb) (defaultEffectivePrice it p)),
                       pi_discount = Some (orZero (i_discount it))\<rparr>],
                   calculatedSubtotal =
                     jsAdd (calculatedSubtotal w)
                       (jsMul (Some (quantityOf it))
                          (priceOr (sellingPrice sb) (defaultEffectivePrice it p))),
                   totalItemDiscount = totalItemDiscount w + orZero (i_discount it)\<rparr>"
    using assms(5-10) ne tot ge unfolding assms(11)[symmetric]
    by (simp add: processItem_def Let_def foldl_add_stock useSpecifiedBatch_def
                  assms(11)[symmetric])
qed


text \<open>
  The claim as written fails where the named batch and the whole product are both short:
  20 units of B1 (stock 5, product total 15) are refused with the total-stock failure.
\<close>

theorem C4_total_stock_error_first:
  "createSale env0 ownerU db0 (saleOf [itemFrom (Oid 201) 20] 200 200)
     = (Failure 400 (InsufficientTotalStock (Oid 100) 15 20), db0)
   \<and> fst (createSale env0 ownerU db0 (saleOf [itemFrom (Oid 201) 20] 200 200))
     \<noteq> Failure 400 (InsufficientBatchStock (Oid 100) 5 20)"
  by code_simp

theorem C4_explicit_batch_witness:
  "createSale env0 ownerU db0 (saleOf [itemFrom (Oid 201) 8] 80 80)
     = (Failure 400 (InsufficientBatchStock (Oid 100) 5 8), db0)
   \<and> (case processItem [productP] (Oid 1) (itemFrom (Oid 202) 8) (initialWork dbW) of
         Inr w' \<Rightarrow> map (\<lambda>a. (pi_batch a, pi_quantity a)) (processedItems w') = [(Oid 202, 8)]
                   \<and> map currentStock (w_batches w') = [2, 5]
       | Inl r \<Rightarrow> False)"
proof -
  let ?i1 = "itemFrom (Oid 201) 8" and ?i2 = "itemFrom (Oid 202) 8"
  have a1: "validateRequest (saleOf [?i1] 80 80) = Inr ([] @ ?i1 # [], cash)" by code_simp
  have a2: "resolveStore ownerU (rq_store (saleOf [?i1] 80 80)) db0 = Inr storeS" by code_simp
  have a3: "resolveCustomer env0 (st_id storeS) (rq_customer (saleOf [?i1] 80 80)) db0
            = Inr (Oid 300, dbW)" by code_simp
  have a4: "processItems (products dbW) (st_id storeS) [] (initialWork dbW) = Inr (initialWork dbW)"
    by simp
  have a5: "isValid (i_product ?i1)" by code_simp
  have a6: "\<not> invalidQuantity (i_quantity ?i1)" by code_simp
  have a7: "find (\<lambda>p. p_id p = i_product ?i1 \<and> p_store p = st_id storeS) (products dbW)
            = Some productP" by code_simp
  have a8: "i_batch ?i1 = Some (Oid 201)" by code_simp
  have a9: "isValid (Oid 201)" by simp
  have a10: "find (\<lambda>b. b_id b = Oid 201 \<and> b_product b = i_product ?i1 \<and> b_store b = st_id storeS)
               (w_batches (initialWork dbW)) = Some batchB1" by code_simp
  have a11: "[batchB1, batchB2]
             = availableBatches (i_product ?i1) (st_id storeS) (w_batches (initialWork dbW))"
    by code_simp
  have less: "currentStock batchB1 < quantityOf ?i1" by code_simp
  have first: "createSale env0 ownerU db0 (saleOf [?i1] 80 80)
                 = (Failure 400 (InsufficientBatchStock (Oid 100) 5 8), db0)"
    using C4_explicit_batch[OF a1 a2 a3 a4 a5 a6 a7 a8 a9 a10 a11, THEN conjunct1, rule_format, OF less]
    by (simp add: itemP_def itemFrom_def quantityOf_def batchB1_def batchB2_def)
  have b1: "validateRequest (saleOf [?i2] 96 96) = Inr ([] @ ?i2 # [], cash)" by code_simp
  have b2: "resolveStore ownerU (rq_store (saleOf [?i2] 96 96)) db0 = Inr storeS" by code_simp
  have b3: "resolveCustomer env0 (st_id storeS) (rq_customer (saleOf [?i2] 96 96)) db0
            = Inr (Oid 300, dbW)" by code_simp
  have b5: "isValid (i_product ?i2)" by code_simp
  have b6: "\<not> invalidQuantity (i_quantity ?i2)" by code_simp
  have b7: "find (\<lambda>p. p_id p = i_product ?i2 \<and> p_store p = st_id storeS) (products dbW)
            = Some productP" by code_simp
  have b8: "i_batch ?i2 = Some (Oid 202)" by code_simp
  have b9: "isValid (Oid 202)" by simp
  have b10: "find (\<lambda>b. b_id b = Oid 202 \<and> b_product b = i_product ?i2 \<and> b_store b = st_id storeS)
               (w_batches (initialWork dbW)) = Some batchB2" by code_simp
  have b11: "[batchB1, batchB2]
             = availableBatches (i_product ?i2) (st_id storeS) (w_batches (initialWork dbW))"
    by code_simp
  have ge: "quantityOf ?i2 \<le> currentStock batchB2" by code_simp
  note second = C4_explicit_batch[OF b1 b2 b3 a4 b5 b6 b7 b8 b9 b10 b11, THEN conjunct2,
                  rule_format, OF ge]
  have st: "st_id storeS = Oid 1" "products dbW = [productP]"
    by (simp_all add: storeS_def dbW_def db0_def)
  have "case processItem [productP] (Oid 1) ?i2 (initialWork dbW) of
         Inr w' \<Rightarrow> map (\<lambda>a. (pi_batch a, pi_quantity a)) (processedItems w') = [(Oid 202, 8)]
                   \<and> map currentStock (w_batches w') = [2, 5]
       | Inl r \<Rightarrow> False"
    using second unfolding st
    by (simp add: itemP_def itemFrom_def quantityOf_def batchB1_def batchB2_def initialWork_def
                  dbW_def db0_def saveBatch_def)
  with first show ?thesis by simp
qed

section \<open>createSale: reconciliation\<close>

lemma jsMul_Some: "jsMul a b = Some c \<longleftrightarrow> (\<exists>x y. a = Some x \<and> b = Some y \<and> c = x * y)"
  by (cases a; cases b) auto

lemma jsAdd_Some: "jsAdd a b = Some c \<longleftrightarrow> (\<exists>x y. a = Some x \<and> b = Some y \<and> c = x + y)"
  by (cases a; cases b) auto

lemma jsSub_Some: "jsSub a b = Some c \<longleftrightarrow> (\<exists>x y. a = Some x \<and> b = Some y \<and> c = x - y)"
  by (cases a; cases b) auto

lemma jsDiv_Some:
  "jsDiv a b = Some c \<longleftrightarrow> (\<exists>x y. a = Some x \<and> b = Some y \<and> y \<noteq> 0 \<and> c = x / y)"
  by (cases a; cases b) auto

lemma addSubtotals_Some:
  "addSubtotals s al = Some c \<Longrightarrow> s \<noteq> None \<and> (\<forall>a \<in> set al. pi_subtotal a \<noteq> None)"
  unfolding addSubtotals_def
proof (induction al arbitrary: s)
  case Nil
  then show ?case by simp
next
  case (Cons a al)
  from Cons.prems have "foldl (\<lambda>acc a. jsAdd acc (pi_subtotal a)) (jsAdd s (pi_subtotal a)) al = Some c"
    by simp
  from Cons.IH[OF this] show ?case
    by (cases s; cases "pi_subtotal a") auto
qed

lemma allocate_elem:
  "x \<in> set (fst (allocate it q dflt bs r bl)) \<Longrightarrow>
   pi_subtotal x = jsMul (Some (pi_quantity x)) (pi_unitPrice x)"
proof (induction bs arbitrary: r bl)
  case Nil
  then show ?case by simp
next
  case (Cons b bs)
  consider "r \<le> 0" | "\<not> r \<le> 0" "currentStock b \<le> 0" | "\<not> r \<le> 0" "\<not> currentStock b \<le> 0"
    by blast
  then show ?case
  proof cases
    case 1
    with Cons.prems show ?thesis by (simp add: allocate_nonpos)
  next
    case 2
    with Cons show ?thesis by (simp add: allocate_skip[OF 2] del: allocate.simps)
  next
    case 3
    with Cons show ?thesis
      by (auto simp: allocate_take[OF 3] Let_def simp del: allocate.simps)
  qed
qed

lemma processItem_priced:
  assumes "processItem ps sid it w = Inr w'" and "calculatedSubtotal w' = Some c"
  shows "calculatedSubtotal w \<noteq> None
         \<and> (\<exists>new. processedItems w' = processedItems w @ new \<and> (\<forall>x \<in> set new. priced x))"
proof (cases "i_batch it")
  case None
  from processItem_auto[OF None assms(1)] obtain p where
    auto: "autoAllocate it (defaultEffectivePrice it p)
             (availableBatches (i_product it) sid (w_batches w)) w = Inr w'"
    by blast
  note r = autoAllocate_Inr[OF auto]
  from r(4) assms(2) have s: "addSubtotals (calculatedSubtotal w)
      (fst (allocate it (quantityOf it) (defaultEffectivePrice it p)
              (availableBatches (i_product it) sid (w_batches w)) (quantityOf it) (w_batches w)))
      = Some c" by simp
  note t = addSubtotals_Some[OF s]
  have "\<forall>x \<in> set (fst (allocate it (quantityOf it) (defaultEffectivePrice it p)
              (availableBatches (i_product it) sid (w_batches w)) (quantityOf it) (w_batches w))).
          priced x"
  proof
    fix x assume x: "x \<in> set (fst (allocate it (quantityOf it) (defaultEffectivePrice it p)
              (availableBatches (i_product it) sid (w_batches w)) (quantityOf it) (w_batches w)))"
    with t have "pi_subtotal x \<noteq> None" by blast
    moreover note allocate_elem[OF x]
    ultimately show "priced x" by (cases "pi_unitPrice x") (auto simp: priced_def)
  qed
  with r(1) t show ?thesis by blast
next
  case (Some bid)
  with assms show ?thesis
    by (auto simp: processItem_def useSpecifiedBatch_def Let_def priced_def jsAdd_Some jsMul_Some
             split: if_splits option.splits)
qed

lemma processItems_priced:
  assumes "processItems ps sid its w = Inr w'" and "calculatedSubtotal w' = Some c"
      and "\<forall>x \<in> set (processedItems w). priced x"
  shows "\<forall>x \<in> set (processedItems w'). priced x"
  using assms
proof (induction its arbitrary: w)
  case Nil
  then show ?case by simp
next
  case (Cons it its)
  from Cons.prems(1) obtain w1 where
    one: "processItem ps sid it w = Inr w1" and rest: "processItems ps sid its w1 = Inr w'"
    by (auto split: sum.splits)
  have mono: "calculatedSubtotal w1 \<noteq> None"
    using rest Cons.prems(2)
  proof (induction its arbitrary: w1)
    case Nil
    then show ?case by simp
  next
    case (Cons a its)
    from Cons.prems(1) obtain w2 where
      a: "processItem ps sid a w1 = Inr w2" and b: "processItems ps sid its w2 = Inr w'"
      by (auto split: sum.splits)
    from Cons.IH[OF b Cons.prems(2)] obtain c2 where "calculatedSubtotal w2 = Some c2" by auto
    from processItem_priced[OF a this] show ?case by simp
  qed
  then obtain c1 where "calculatedSubtotal w1 = Some c1" by auto
  from processItem_priced[OF one this] Cons.prems(3)
  have "\<forall>x \<in> set (processedItems w1). priced x" by auto
  from Cons.IH[OF rest Cons.prems(2) this] show ?case .
qed

lemma allSome_map_Some:
  "\<forall>x \<in> set xs. f x \<noteq> None \<Longrightarrow> \<exists>ys. allSome (map f xs) = Some ys \<and> length ys = length xs"
  by (induction xs) auto

lemma allSome_nth:
  "allSome (map f xs) = Some ys \<Longrightarrow>
   length ys = length xs \<and> (\<forall>i<length xs. f (xs ! i) = Some (ys ! i))"
proof (induction xs arbitrary: ys)
  case Nil
  then show ?case by simp
next
  case (Cons x xs)
  from Cons.prems obtain y ys' where
    y: "f x = Some y" and r: "allSome (map f xs) = Some ys'" and ys: "ys = y # ys'"
    by (cases "f x"; cases "allSome (map f xs)") auto
  from Cons.IH[OF r] y ys show ?case
    by (auto simp: nth_Cons split: nat.splits)
qed

lemma distribute_sel [simp]:
  "pi_product (distribute cda cs x) = pi_product x"
  "pi_batch (distribute cda cs x) = pi_batch x"
  "pi_quantity (distribute cda cs x) = pi_quantity x"
  "pi_unitPrice (distribute cda cs x) = pi_unitPrice x"
  "pi_subtotal (distribute cda cs x) = pi_subtotal x"
  "pi_discount (distribute cda cs x)
     = jsAdd (Some (orZero (pi_discount x))) (jsMul cda (jsDiv (pi_subtotal x) cs))"
  by (simp_all add: distribute_def Let_def)

lemma discountedItems_priced:
  "\<forall>x \<in> set (processedItems w). priced x \<Longrightarrow> \<forall>x \<in> set (discountedItems rq w). priced x"
  by (auto simp: discountedItems_def priced_def)

lemma recalcItem_priced: "priced x \<Longrightarrow> recalcItem x \<noteq> None"
  by (auto simp: priced_def recalcItem_def)

lemma recalcItem_sel:
  "recalcItem x = Some y \<Longrightarrow>
   rc_productId y = pi_product x \<and> rc_batchId y = pi_batch x \<and> rc_quantity y = pi_quantity x"
  by (auto simp: recalcItem_def split: option.splits)

text \<open>
  Claim C5. A createSale call without forceCreate whose item loop succeeded and whose
  calculated subtotal or calculated total differs from the submitted one by more than
  0.01 is answered with the recalculation body: the recalculated subtotal and total
  (to two decimals), the allocations, and the submitted subtotal and total. The database
  returned is the one the call started with: no sale, no stock change and no walk-in
  customer of the aborted transaction remains.
\<close>

theorem C5_recalculation_commits_nothing:
  assumes "validateRequest rq = Inr (items, pay)"
      and "resolveStore u (rq_store rq) d = Inr storeDoc"
      and "resolveCustomer e (st_id storeDoc) (rq_customer rq) d = Inr (cid, d1)"
      and "processItems (products d1) (st_id storeDoc) items (initialWork d1) = Inr w"
      and "calculatedSubtotal w = Some cs" and "calculatedTotal rq w = Some ct"
      and "rq_subtotal rq = JNum st" and "rq_total rq = JNum tot"
      and "\<bar>cs - st\<bar> > 1 / 100 \<or> \<bar>ct - tot\<bar> > 1 / 100"
      and "\<not> forceCreate rq"
  shows "\<exists>rc. createSale e u d rq = (Recalculation rc, d)
           \<and> recalc_subtotal rc = toFixed2 cs \<and> recalc_total rc = toFixed2 ct
           \<and> original_subtotal rc = st \<and> original_total rc = tot
           \<and> map rc_batchId (recalc_items rc) = map pi_batch (processedItems w)
           \<and> map rc_quantity (recalc_items rc) = map pi_quantity (processedItems w)"
proof -
  have init: "\<forall>x \<in> set (processedItems (initialWork d1)). priced x"
    by (simp add: initialWork_def)
  have "\<forall>x \<in> set (processedItems w). priced x"
    by (rule processItems_priced[OF assms(4,5) init])
  then have "\<forall>x \<in> set (discountedItems rq w). recalcItem x \<noteq> None"
    using discountedItems_priced recalcItem_priced by blast
  from allSome_map_Some[OF this] obtain ris where
    ris: "allSome (map recalcItem (discountedItems rq w)) = Some ris" by blast
  from assms(6) obtain cd where cd: "calculatedDiscountAmount rq w = Some cd"
    by (auto simp: calculatedTotal_def jsAdd_Some jsSub_Some)
  define rc where "rc = \<lparr>recalc_subtotal = toFixed2 cs,
             recalc_discountPercentage = discountPercentage rq,
             recalc_discountAmount = toFixed2 cd,
             recalc_tax = numOrZero (rq_tax rq),
             recalc_total = toFixed2 ct,
             recalc_items = ris,
             original_subtotal = numOrZero (rq_subtotal rq),
             original_total = numOrZero (rq_total rq)\<rparr>"
  have resp: "recalculationResponse rq w = Recalculation rc"
    by (simp add: recalculationResponse_def assms(5,6) cd ris rc_def)
  have disc: "subtotalDiscrepancy rq w \<or> totalDiscrepancy rq w"
    using assms(5-9) by (simp add: subtotalDiscrepancy_def totalDiscrepancy_def discrepancy_def)
  have "createSale e u d rq = (Recalculation rc, d)"
    using assms(1-4,10) disc resp by (simp add: createSale_def createSaleTx_def)
  moreover have "length (discountedItems rq w) = length (processedItems w)"
    by (simp add: discountedItems_def)
  moreover have "\<forall>i<length (processedItems w).
       pi_batch (discountedItems rq w ! i) = pi_batch (processedItems w ! i)
     \<and> pi_quantity (discountedItems rq w ! i) = pi_quantity (processedItems w ! i)"
    by (simp add: discountedItems_def)
  ultimately show ?thesis
    using allSome_nth[OF ris] recalcItem_sel assms(7,8)
    by (intro exI[of _ rc]) (auto simp: rc_def intro!: nth_equalityI)
qed

theorem C5_recalculation_commits_nothing_witness:
  "\<exists>rc. createSale env0 ownerU db0 (saleOf [itemP 8] 80 80) = (Recalculation rc, db0)
        \<and> recalc_subtotal rc = 86 \<and> recalc_total rc = 86
        \<and> original_subtotal rc = 80 \<and> original_total rc = 80
        \<and> map rc_quantity (recalc_items rc) = [5, 3]
        \<and> customers db0 = [] \<and> sales db0 = []"
proof -
  let ?rq = "saleOf [itemP 8] 80 80"
  have h1: "validateRequest ?rq = Inr ([itemP 8], cash)" by code_simp
  have h2: "resolveStore ownerU (rq_store ?rq) db0 = Inr storeS" by code_simp
  have h3: "resolveCustomer env0 (st_id storeS) (rq_customer ?rq) db0 = Inr (Oid 300, dbW)"
    by code_simp
  have h4: "processItems (products dbW) (st_id storeS) [itemP 8] (initialWork dbW) = Inr work8"
    by code_simp
  have h5: "calculatedSubtotal work8 = Some 86" by (simp add: work8_def)
  have h6: "calculatedTotal ?rq work8 = Some 86" by code_simp
  have h7: "rq_subtotal ?rq = JNum 80" and h8: "rq_total ?rq = JNum 80"
    by (simp_all add: saleOf_def)
  have h9: "\<bar>86 - 80\<bar> > (1::rat) / 100 \<or> \<bar>86 - 80\<bar> > (1::rat) / 100" by simp
  have h10: "\<not> forceCreate ?rq" by (simp add: saleOf_def)
  have t: "toFixed2 86 = 86" by code_simp
  from C5_recalculation_commits_nothing[OF h1 h2 h3 h4 h5 h6 h7 h8 h9 h10]
  show ?thesis
    by (auto simp: t work8_def db0_def)
qed

lemma toSaleItem_Some:
  assumes "toSaleItem x = Some y"
  shows "\<exists>up st dc. pi_unitPrice x = Some up \<and> pi_subtotal x = Some st \<and> pi_discount x = Some dc
           \<and> si_unitPrice y = up \<and> si_subtotal y = st \<and> si_discount y = dc
           \<and> si_product y = pi_product x \<and> si_batch y = pi_batch x
           \<and> si_quantity y = pi_quantity x \<and> si_returnedQuantity y = 0"
  using assms by (auto simp: toSaleItem_def split: option.splits)

lemma createSale_created:
  assumes "validateRequest rq = Inr (items, pay)"
      and "resolveStore u (rq_store rq) d = Inr storeDoc"
      and "resolveCustomer e (st_id storeDoc) (rq_customer rq) d = Inr (cid, d1)"
      and "processItems (products d1) (st_id storeDoc) items (initialWork d1) = Inr w"
      and "createSale e u d rq = (SaleCreated s, d')"
  shows "newSale e u (st_id storeDoc) cid pay rq w = Some s
         \<and> d' = d1\<lparr>batches := w_batches w, sales := sales d1 @ [s]\<rparr>"
  using assms
  by (auto simp: createSale_def createSaleTx_def recalculationResponse_def
           split: if_splits option.splits sum.splits prod.splits)

text \<open>
  Claim C6, as the code has it. With forceCreate the sale that createSale stores takes its
  amounts from the server's calculation and not from the submitted subtotal and total,
  each rounded to two decimals: subtotal from calculatedSubtotal, total and finalTotal from
  calculatedSubtotal minus calculatedDiscountAmount plus tax. With a cart discount
  percentage above zero the cart discount, calculatedSubtotal times the percentage over
  100, is part of calculatedDiscountAmount and is added to the discount of each processed
  item in proportion to the item's share of the subtotal.
\<close>

theorem C6_forced_sale_values:
  assumes "validateRequest rq = Inr (items, pay)"
      and "resolveStore u (rq_store rq) d = Inr storeDoc"
      and "resolveCustomer e (st_id storeDoc) (rq_customer rq) d = Inr (cid, d1)"
      and "processItems (products d1) (st_id storeDoc) items (initialWork d1) = Inr w"
      and "forceCreate rq"
      and "createSale e u d rq = (SaleCreated s, d')"
  shows "\<exists>cs cd. calculatedSubtotal w = Some cs \<and> calculatedDiscountAmount rq w = Some cd
           \<and> sale_subtotal s = toFixed2 cs
           \<and> sale_total s = toFixed2 (cs - cd + numOrZero (rq_tax rq))
           \<and> sale_finalTotal s = sale_total s
           \<and> length (sale_items s) = length (processedItems w)
           \<and> (0 < discountPercentage rq \<longrightarrow>
                cd = totalItemDiscount w + cs * discountPercentage rq / 100
              \<and> (\<forall>i<length (sale_items s).
                    si_discount (sale_items s ! i)
                      = orZero (pi_discount (processedItems w ! i))
                        + cs * discountPercentage rq / 100
                          * (si_subtotal (sale_items s ! i) / cs)))"
proof -
  from createSale_created[OF assms(1-4,6)]
  have ns: "newSale e u (st_id storeDoc) cid pay rq w = Some s" by simp
  then obtain its fs ft where
    its: "allSome (map toSaleItem (discountedItems rq w)) = Some its" and
    fs: "finalSubtotal rq w = Some fs" and ft: "finalTotal rq w = Some ft" and
    s: "sale_items s = its" "sale_subtotal s = toFixed2 fs"
       "sale_total s = toFixed2 ft" "sale_finalTotal s = toFixed2 ft"
    by (auto simp: newSale_def split: option.splits if_splits)
  from fs ft assms(5) have
    cs: "calculatedSubtotal w = Some fs" and ct: "calculatedTotal rq w = Some ft"
    by (simp_all add: finalSubtotal_def finalTotal_def)
  from ct cs obtain fd where
    cd: "calculatedDiscountAmount rq w = Some fd" and
    ftv: "ft = fs - fd + numOrZero (rq_tax rq)"
    by (auto simp: calculatedTotal_def jsAdd_Some jsSub_Some)
  note n = allSome_nth[OF its]
  have len: "length its = length (processedItems w)"
    using n by (simp add: discountedItems_def)
  have dist: "fd = totalItemDiscount w + fs * discountPercentage rq / 100
              \<and> (\<forall>i<length its.
                    si_discount (its ! i)
                      = orZero (pi_discount (processedItems w ! i))
                        + fs * discountPercentage rq / 100 * (si_subtotal (its ! i) / fs))"
    if pos: "0 < discountPercentage rq"
  proof
    have cda: "cartDiscountAmount rq w = Some (fs * discountPercentage rq / 100)"
      by (simp add: cartDiscountAmount_def cs)
    with cd pos show "fd = totalItemDiscount w + fs * discountPercentage rq / 100"
      by (simp add: calculatedDiscountAmount_def)
    show "\<forall>i<length its.
                    si_discount (its ! i)
                      = orZero (pi_discount (processedItems w ! i))
                        + fs * discountPercentage rq / 100 * (si_subtotal (its ! i) / fs)"
    proof (intro allI impI)
      fix i assume i: "i < length its"
      with len have i': "i < length (processedItems w)" by simp
      have di: "discountedItems rq w ! i
                = distribute (Some (fs * discountPercentage rq / 100)) (Some fs)
                    (processedItems w ! i)"
        using pos i' by (simp add: discountedItems_def cda cs)
      from n i have "toSaleItem (discountedItems rq w ! i) = Some (its ! i)" by simp
      from toSaleItem_Some[OF this] obtain st dc where
        st: "pi_subtotal (processedItems w ! i) = Some st" and
        dc: "jsAdd (Some (orZero (pi_discount (processedItems w ! i))))
               (jsMul (Some (fs * discountPercentage rq / 100)) (jsDiv (Some st) (Some fs)))
             = Some dc" and
        eq: "si_subtotal (its ! i) = st" "si_discount (its ! i) = dc"
        unfolding di by auto
      have fs0: "fs \<noteq> 0" using dc by (cases "fs = 0") simp_all
      have "jsDiv (Some st) (Some fs) = Some (st / fs)" using fs0 by simp
      with dc have "dc = orZero (pi_discount (processedItems w ! i))
                         + fs * discountPercentage rq / 100 * (st / fs)"
        by (simp only: jsMul.simps jsAdd.simps option.inject)
      with eq show "si_discount (its ! i)
                      = orZero (pi_discount (processedItems w ! i))
                        + fs * discountPercentage rq / 100 * (si_subtotal (its ! i) / fs)"
        by simp
    qed
  qed
  show ?thesis
    using cs cd s ftv len dist by auto
qed

text \<open>
  The claim as written (the stored values are the calculated ones) fails where the
  calculation has more than two decimals: 0.125 percent of 86 is 0.1075, the calculated
  total is 85.8925, and the sale stores the total 85.89.
\<close>

theorem C6_persisted_values_are_rounded:
  "(case createSale env0 ownerU db0 forced of
      (SaleCreated s, d') \<Rightarrow> sale_total s = 8589 / 100 \<and> sale_finalTotal s = 8589 / 100
    | _ \<Rightarrow> False)
   \<and> processItems (products dbW) (Oid 1) [itemP 8] (initialWork dbW) = Inr work8
   \<and> calculatedDiscountAmount forced work8 = Some (43 / 400)
   \<and> calculatedTotal forced work8 = Some (34357 / 400)"
  by code_simp

theorem C6_forced_sale_values_witness:
  "createSale env0 ownerU db0 forced = (SaleCreated saleF, db1\<lparr>sales := [saleF]\<rparr>)
   \<and> rq_subtotal forced = JNum 0 \<and> rq_total forced = JNum 0
   \<and> sale_subtotal saleF = 86 \<and> sale_total saleF = 8589 / 100
   \<and> map si_discount (sale_items saleF) = [1 / 16, 9 / 200]"
proof -
  have h1: "validateRequest forced = Inr ([itemP 8], cash)" by code_simp
  have h2: "resolveStore ownerU (rq_store forced) db0 = Inr storeS" by code_simp
  have h3: "resolveCustomer env0 (st_id storeS) (rq_customer forced) db0 = Inr (Oid 300, dbW)"
    by code_simp
  have h4: "processItems (products dbW) (st_id storeS) [itemP 8] (initialWork dbW) = Inr work8"
    by code_simp
  have h5: "forceCreate forced" by (simp add: forced_def)
  have h6: "createSale env0 ownerU db0 forced = (SaleCreated saleF, db1\<lparr>sales := [saleF]\<rparr>)"
    by code_simp
  from C6_forced_sale_values[OF h1 h2 h3 h4 h5 h6] obtain cs cd where
    c: "calculatedSubtotal work8 = Some cs" "sale_subtotal saleF = toFixed2 cs" by blast
  from c(1) have "cs = 86" by (simp add: work8_def)
  with c(2) have "sale_subtotal saleF = toFixed2 86" by simp
  moreover have "toFixed2 86 = 86" by code_simp
  ultimately have "sale_subtotal saleF = 86" by simp
  moreover have "sale_total saleF = 8589 / 100"
                "map si_discount (sale_items saleF) = [1 / 16, 9 / 200]"
                "rq_subtotal forced = JNum 0" "rq_total forced = JNum 0"
    by (simp_all add: saleF_def forced_def saleOf_def)
  ultimately show ?thesis using h6 by simp
qed

section \<open>returnProducts\<close>

lemma returnLines_append:
  "returnLines ps (xs @ ys) st =
     (case returnLines ps xs st of Inl r \<Rightarrow> Inl r | Inr st' \<Rightarrow> returnLines ps ys st')"
  by (induction xs arbitrary: st) (auto split: sum.splits)

lemma returnProducts_line_failure:
  assumes "validateReturn rq = Inr (pre @ l # post)"
      and "find (\<lambda>s. sale_id s = saleId rq
                      \<and> (case storeId rq of None \<Rightarrow> True | Some x \<Rightarrow> sale_store s = x))
             (sales d) = Some sale"
      and "find (\<lambda>st. st_id st = sale_store sale) (stores d) = Some storeDoc"
      and "st_owner storeDoc = u_id u \<or> u_id u \<in> set (st_staff storeDoc) \<or> u_role u = Admin"
      and "daysDifference currentDate (sale_createdAt sale) \<le> RETURN_WINDOW_DAYS"
      and "returnLines (products d) pre
             \<lparr>rs_batches = batches d, rs_items = sale_items sale, rs_summary = [],
              rs_total = 0\<rparr> = Inr st"
      and "returnLine (products d) l st = Inl r"
  shows "returnProducts currentDate u d rq = (r, d)"
proof -
  have nauth: "\<not> (st_owner storeDoc \<noteq> u_id u \<and> u_id u \<notin> set (st_staff storeDoc)
                    \<and> u_role u \<noteq> Admin)"
    using assms(4) by blast
  have nwin: "\<not> daysDifference currentDate (sale_createdAt sale) > RETURN_WINDOW_DAYS"
    using assms(5) by simp
  show ?thesis
    by (simp add: returnProducts_def returnProductsTx_def returnLines_append Let_def
                  assms(1,2,3,6,7) nauth nwin)
qed

lemma returnLine_rejects:
  assumes "find (matches l) (rs_items st) = Some originalItem"
      and "si_returnedQuantity originalItem + rl_quantity l > si_quantity originalItem"
  shows "returnLine ps l st =
           Inl (Failure 400
                  (if rl_quantity l > si_quantity originalItem
                   then ReturnExceedsPurchased (rl_product l)
                   else AlreadyReturned (rl_product l)))"
  using assms by (auto simp: returnLine_def)

lemma discountPerUnit_Some:
  "discountPerUnit x = Some dpu \<Longrightarrow>
   dpu = si_discount x / si_quantity x \<and> (si_discount x = 0 \<or> si_quantity x \<noteq> 0)"
  by (auto simp: discountPerUnit_def split: if_splits)

lemma returnLine_Inr:
  assumes "returnLine ps l st = Inr st'"
  shows "\<exists>originalItem batch product.
           find (matches l) (rs_items st) = Some originalItem
         \<and> find (\<lambda>b. b_id b = rl_batch l) (rs_batches st) = Some batch
         \<and> find (\<lambda>p. p_id p = rl_product l) ps = Some product
         \<and> rl_quantity l \<le> si_quantity originalItem
         \<and> si_returnedQuantity originalItem + rl_quantity l \<le> si_quantity originalItem
         \<and> (si_discount originalItem = 0 \<or> si_quantity originalItem \<noteq> 0)
         \<and> rs_batches st' =
              saveBatch (batch\<lparr>currentStock := currentStock batch + rl_quantity l\<rparr>)
                (rs_batches st)
         \<and> rs_items st' = addReturned l (rs_items st)
         \<and> rs_total st' = rs_total st
              + (si_unitPrice originalItem - si_discount originalItem / si_quantity originalItem)
                * rl_quantity l
         \<and> rs_summary st' = rs_summary st @
              [\<lparr>rs_product = p_id product,
                rs_batch = (if batchNumber batch \<noteq> [] then Inl (batchNumber batch)
                            else Inr (rl_batch l)),
                rs_returnedQuantity = rl_quantity l,
                rs_unitPrice = si_unitPrice originalItem,
                rs_discountPerUnit = si_discount originalItem / si_quantity originalItem,
                rs_effectiveUnitPrice =
                  si_unitPrice originalItem - si_discount originalItem / si_quantity originalItem,
                rs_refundAmount =
                  (si_unitPrice originalItem - si_discount originalItem / si_quantity originalItem)
                  * rl_quantity l\<rparr>]"
proof -
  note A = assms
  from A obtain originalItem where f: "find (matches l) (rs_items st) = Some originalItem"
    by (cases "find (matches l) (rs_items st)") (simp_all add: returnLine_def)
  from A f have c1: "rl_quantity l \<le> si_quantity originalItem"
    by (simp add: returnLine_def split: if_splits)
  then have n1: "\<not> rl_quantity l > si_quantity originalItem" by simp
  have c2: "si_returnedQuantity originalItem + rl_quantity l \<le> si_quantity originalItem"
  proof (cases "si_returnedQuantity originalItem = 0")
    case True
    with c1 show ?thesis by simp
  next
    case False
    with A f n1 show ?thesis by (simp add: returnLine_def split: if_splits)
  qed
  then have n2: "\<not> si_returnedQuantity originalItem + rl_quantity l > si_quantity originalItem"
    by simp
  from A f n1 n2 obtain batch where
    b: "find (\<lambda>b. b_id b = rl_batch l) (rs_batches st) = Some batch"
    by (cases "find (\<lambda>b. b_id b = rl_batch l) (rs_batches st)")
       (simp_all add: returnLine_def)
  from A f n1 n2 b obtain product where
    p: "find (\<lambda>p. p_id p = rl_product l) ps = Some product"
    by (cases "find (\<lambda>p. p_id p = rl_product l) ps") (simp_all add: returnLine_def)
  from A f n1 n2 b p obtain dpu where dp: "discountPerUnit originalItem = Some dpu"
    by (cases "discountPerUnit originalItem") (simp_all add: returnLine_def)
  from discountPerUnit_Some[OF dp] have
    dpu: "dpu = si_discount originalItem / si_quantity originalItem" and
    q: "si_discount originalItem = 0 \<or> si_quantity originalItem \<noteq> 0"
    by simp_all
  from A f n1 n2 b p dp have st': "st' =
      \<lparr>rs_batches =
         saveBatch (batch\<lparr>currentStock := currentStock batch + rl_quantity l\<rparr>) (rs_batches st),
       rs_items = addReturned l (rs_items st),
       rs_summary = rs_summary st @
         [\<lparr>rs_product = p_id product,
           rs_batch = (if batchNumber batch \<noteq> [] then Inl (batchNumber batch)
                       else Inr (rl_batch l)),
           rs_returnedQuantity = rl_quantity l,
           rs_unitPrice = si_unitPrice originalItem,
           rs_discountPerUnit = dpu,
           rs_effectiveUnitPrice = si_unitPrice originalItem - dpu,
           rs_refundAmount = (si_unitPrice originalItem - dpu) * rl_quantity l\<rparr>],
       rs_total = rs_total st + (si_unitPrice originalItem - dpu) * rl_quantity l\<rparr>"
    by (simp add: returnLine_def Let_def)
  show ?thesis
    apply (rule exI[of _ originalItem])
    apply (rule exI[of _ batch])
    apply (rule exI[of _ product])
    using f b p c1 c2 q by (simp add: st' dpu)
qed

lemma addReturned_bound:
  assumes "find (matches l) items = Some originalItem"
      and "si_returnedQuantity originalItem + rl_quantity l \<le> si_quantity originalItem"
      and "\<forall>item \<in> set items. si_returnedQuantity item \<le> si_quantity item"
  shows "\<forall>item \<in> set (addReturned l items). si_returnedQuantity item \<le> si_quantity item"
  using assms by (induction items) (auto split: if_splits)

lemma returnLines_bound:
  assumes "returnLines ps ls st = Inr st'"
      and "\<forall>item \<in> set (rs_items st). si_returnedQuantity item \<le> si_quantity item"
  shows "\<forall>item \<in> set (rs_items st'). si_returnedQuantity item \<le> si_quantity item"
  using assms
proof (induction ls arbitrary: st)
  case Nil
  then show ?case by simp
next
  case (Cons l ls)
  from Cons.prems(1) obtain st1 where
    one: "returnLine ps l st = Inr st1" and rest: "returnLines ps ls st1 = Inr st'"
    by (auto split: sum.splits)
  from returnLine_Inr[OF one] obtain originalItem batch product where
    "find (matches l) (rs_items st) = Some originalItem"
    "si_returnedQuantity originalItem + rl_quantity l \<le> si_quantity originalItem"
    "rs_items st1 = addReturned l (rs_items st)"
    by (elim exE conjE) (rule that)
  with addReturned_bound[OF this(1,2) Cons.prems(2)]
  have "\<forall>item \<in> set (rs_items st1). si_returnedQuantity item \<le> si_quantity item" by simp
  from Cons.IH[OF rest this] show ?case .
qed

lemma checkLines_Inl: "checkLines items = Inl r \<Longrightarrow> \<exists>c f. r = Failure c f"
proof (induction items)
  case Nil
  then show ?case by simp
next
  case (Cons item items)
  then show ?case
    by (cases "checkLine item"; cases "checkLines items")
       (auto simp: checkLine_def split: option.splits if_splits)
qed

lemma validateReturn_Inl: "validateReturn rq = Inl r \<Longrightarrow> \<exists>c f. r = Failure c f"
  by (auto simp: validateReturn_def checkLines_Inl split: if_splits option.splits)

lemma returnLine_Inl: "returnLine ps l st = Inl r \<Longrightarrow> \<exists>c f. r = Failure c f"
  by (auto simp: returnLine_def Let_def split: option.splits if_splits)

lemma returnLines_Inl: "returnLines ps ls st = Inl r \<Longrightarrow> \<exists>c f. r = Failure c f"
proof (induction ls arbitrary: st)
  case Nil
  then show ?case by simp
next
  case (Cons l ls)
  then show ?case
    by (cases "returnLine ps l st") (auto simp: returnLine_Inl)
qed

lemma returnProductsTx_Inl:
  assumes "returnProductsTx currentDate u d rq = Inl r"
  shows "\<exists>c f. r = Failure c f"
proof (cases "validateReturn rq")
  case (Inl a)
  with assms validateReturn_Inl[OF Inl] show ?thesis by (simp add: returnProductsTx_def)
next
  case (Inr ls)
  let ?P = "\<lambda>s :: sale. sale_id s = saleId rq
                      \<and> (case storeId rq of None \<Rightarrow> True | Some x \<Rightarrow> sale_store s = x)"
  show ?thesis
  proof (cases "find ?P (sales d)")
    case None
    with assms Inr have "r = Failure 404 SaleNotFound" by (simp add: returnProductsTx_def)
    then show ?thesis by blast
  next
    case (Some sale)
    show ?thesis
    proof (cases "find (\<lambda>st. st_id st = sale_store sale) (stores d)")
      case None
      with assms Inr Some have "r = Failure 404 StoreNotFound" by (simp add: returnProductsTx_def)
      then show ?thesis by blast
    next
      case ss: (Some storeDoc)
      let ?st0 = "\<lparr>rs_batches = batches d, rs_items = sale_items sale, rs_summary = [],
                   rs_total = 0\<rparr>"
      show ?thesis
      proof (cases "returnLines (products d) ls ?st0")
        case (Inl a)
        from returnLines_Inl[OF Inl] assms Inr Some ss Inl show ?thesis
          by (auto simp: returnProductsTx_def Let_def split: if_splits)
      next
        case r: (Inr st)
        from assms Inr Some ss r show ?thesis
          by (auto simp: returnProductsTx_def Let_def split: if_splits)
      qed
    qed
  qed
qed

lemma saveSale_set: "s \<in> set (saveSale doc sl) \<Longrightarrow> s = doc \<or> s \<in> set sl"
  by (auto simp: saveSale_def split: if_splits)

lemma returnProducts_accepted:
  assumes "returnProducts currentDate u d rq = (ProductsReturned res, d')"
  shows "\<exists>ls sale storeDoc st.
           validateReturn rq = Inr ls
         \<and> find (\<lambda>s. sale_id s = saleId rq
                      \<and> (case storeId rq of None \<Rightarrow> True | Some x \<Rightarrow> sale_store s = x))
             (sales d) = Some sale
         \<and> find (\<lambda>st. st_id st = sale_store sale) (stores d) = Some storeDoc
         \<and> (st_owner storeDoc = u_id u \<or> u_id u \<in> set (st_staff storeDoc) \<or> u_role u = Admin)
         \<and> daysDifference currentDate (sale_createdAt sale) \<le> RETURN_WINDOW_DAYS
         \<and> returnLines (products d) ls
             \<lparr>rs_batches = batches d, rs_items = sale_items sale, rs_summary = [],
              rs_total = 0\<rparr> = Inr st
         \<and> res = \<lparr>rr_invoiceNumber = invoiceNumber sale, rr_storeId = sale_store sale,
                   returnSummary = rs_summary st, totalRefundAmount = rs_total st,
                   updatedSaleTotal = sale_total sale - (sale_returnTotal sale + rs_total st)\<rparr>
         \<and> d' = d\<lparr>batches := rs_batches st,
                   sales := saveSale (recordReturn currentDate u rq ls st sale) (sales d)\<rparr>"
proof -
  define P where "P = (\<lambda>s :: sale. sale_id s = saleId rq
                      \<and> (case storeId rq of None \<Rightarrow> True | Some x \<Rightarrow> sale_store s = x))"
  from assms have tx: "returnProductsTx currentDate u d rq = Inr (res, d')"
    by (auto simp: returnProducts_def split: sum.splits dest: returnProductsTx_Inl)
  then obtain ls where v: "validateReturn rq = Inr ls"
    by (cases "validateReturn rq") (auto simp: returnProductsTx_def)
  from tx v obtain sale where f: "find P (sales d) = Some sale"
    by (cases "find P (sales d)") (auto simp: returnProductsTx_def P_def)
  from tx v f obtain storeDoc where
    s: "find (\<lambda>st. st_id st = sale_store sale) (stores d) = Some storeDoc"
    by (cases "find (\<lambda>st. st_id st = sale_store sale) (stores d)")
       (auto simp: returnProductsTx_def P_def)
  have auth: "st_owner storeDoc = u_id u \<or> u_id u \<in> set (st_staff storeDoc) \<or> u_role u = Admin"
  proof (rule ccontr)
    assume "\<not> ?thesis"
    then have "st_owner storeDoc \<noteq> u_id u \<and> u_id u \<notin> set (st_staff storeDoc)
                 \<and> u_role u \<noteq> Admin" by blast
    with tx v f s show False by (simp add: returnProductsTx_def P_def Let_def)
  qed
  then have nauth: "\<not> (st_owner storeDoc \<noteq> u_id u \<and> u_id u \<notin> set (st_staff storeDoc)
                    \<and> u_role u \<noteq> Admin)" by blast
  have win: "daysDifference currentDate (sale_createdAt sale) \<le> RETURN_WINDOW_DAYS"
  proof (rule ccontr)
    assume "\<not> ?thesis"
    then have "daysDifference currentDate (sale_createdAt sale) > RETURN_WINDOW_DAYS" by simp
    with tx v f s auth show False by (auto simp: returnProductsTx_def P_def Let_def)
  qed
  then have nwin: "\<not> daysDifference currentDate (sale_createdAt sale) > RETURN_WINDOW_DAYS"
    by simp
  let ?st0 = "\<lparr>rs_batches = batches d, rs_items = sale_items sale, rs_summary = [],
              rs_total = 0\<rparr>"
  have tx': "returnProductsTx currentDate u d rq =
      (case returnLines (products d) ls ?st0 of
         Inl r \<Rightarrow> Inl r
       | Inr st \<Rightarrow>
           Inr (\<lparr>rr_invoiceNumber = invoiceNumber sale, rr_storeId = sale_store sale,
                  returnSummary = rs_summary st, totalRefundAmount = rs_total st,
                  updatedSaleTotal = sale_total sale - (sale_returnTotal sale + rs_total st)\<rparr>,
                d\<lparr>batches := rs_batches st,
                  sales := saveSale (recordReturn currentDate u rq ls st sale) (sales d)\<rparr>))"
    using v f s auth nwin
    by (auto simp: returnProductsTx_def P_def Let_def recordReturn_def split: sum.splits)
  from tx obtain st where l: "returnLines (products d) ls ?st0 = Inr st"
    unfolding tx' by (cases "returnLines (products d) ls ?st0") auto
  from tx l have "res = \<lparr>rr_invoiceNumber = invoiceNumber sale, rr_storeId = sale_store sale,
                   returnSummary = rs_summary st, totalRefundAmount = rs_total st,
                   updatedSaleTotal = sale_total sale - (sale_returnTotal sale + rs_total st)\<rparr>"
     and "d' = d\<lparr>batches := rs_batches st,
                   sales := saveSale (recordReturn currentDate u rq ls st sale) (sales d)\<rparr>"
    unfolding tx' by simp_all
  with v f s auth win l show ?thesis
    unfolding P_def
    by (intro exI[of _ ls] exI[of _ sale] exI[of _ storeDoc] exI[of _ st]) simp
qed

text \<open>
  Claim C7. A return line whose quantity plus the quantity already returned of its item
  exceeds the purchased quantity makes returnProducts answer 400 and return the database
  it was called with: no returnedQuantity, returnTotal, finalTotal or batch stock changes,
  whatever lines before it had been accepted inside the transaction. An accepted return
  therefore keeps every item of every sale at returnedQuantity not above quantity.
\<close>

theorem C7_over_return_rejected:
  "(\<forall>currentDate u d rq pre l post sale storeDoc st originalItem.
      validateReturn rq = Inr (pre @ l # post) \<longrightarrow>
      find (\<lambda>s. sale_id s = saleId rq
                 \<and> (case storeId rq of None \<Rightarrow> True | Some x \<Rightarrow> sale_store s = x))
        (sales d) = Some sale \<longrightarrow>
      find (\<lambda>st. st_id st = sale_store sale) (stores d) = Some storeDoc \<longrightarrow>
      (st_owner storeDoc = u_id u \<or> u_id u \<in> set (st_staff storeDoc) \<or> u_role u = Admin) \<longrightarrow>
      daysDifference currentDate (sale_createdAt sale) \<le> RETURN_WINDOW_DAYS \<longrightarrow>
      returnLines (products d) pre
        \<lparr>rs_batches = batches d, rs_items = sale_items sale, rs_summary = [], rs_total = 0\<rparr>
        = Inr st \<longrightarrow>
      find (matches l) (rs_items st) = Some originalItem \<longrightarrow>
      si_returnedQuantity originalItem + rl_quantity l > si_quantity originalItem \<longrightarrow>
      returnProducts currentDate u d rq =
        (Failure 400 (if rl_quantity l > si_quantity originalItem
                      then ReturnExceedsPurchased (rl_product l)
                      else AlreadyReturned (rl_product l)), d))
   \<and> (\<forall>currentDate u d rq res d'.
        returnProducts currentDate u d rq = (ProductsReturned res, d') \<longrightarrow>
        (\<forall>s \<in> set (sales d). \<forall>item \<in> set (sale_items s).
            si_returnedQuantity item \<le> si_quantity item) \<longrightarrow>
        (\<forall>s \<in> set (sales d'). \<forall>item \<in> set (sale_items s).
            si_returnedQuantity item \<le> si_quantity item))"
proof (intro conjI allI impI)
  fix currentDate and u :: user and d :: db and rq pre l post
    and sale :: sale and storeDoc :: store and st originalItem
  assume a: "validateReturn rq = Inr (pre @ l # post)"
    "find (\<lambda>s. sale_id s = saleId rq
                 \<and> (case storeId rq of None \<Rightarrow> True | Some x \<Rightarrow> sale_store s = x))
        (sales d) = Some sale"
    "find (\<lambda>st. st_id st = sale_store sale) (stores d) = Some storeDoc"
    "st_owner storeDoc = u_id u \<or> u_id u \<in> set (st_staff storeDoc) \<or> u_role u = Admin"
    "daysDifference currentDate (sale_createdAt sale) \<le> RETURN_WINDOW_DAYS"
    "returnLines (products d) pre
        \<lparr>rs_batches = batches d, rs_items = sale_items sale, rs_summary = [], rs_total = 0\<rparr>
        = Inr st"
    and b: "find (matches l) (rs_items st) = Some originalItem"
    "si_returnedQuantity originalItem + rl_quantity l > si_quantity originalItem"
  show "returnProducts currentDate u d rq =
        (Failure 400 (if rl_quantity l > si_quantity originalItem
                      then ReturnExceedsPurchased (rl_product l)
                      else AlreadyReturned (rl_product l)), d)"
    by (rule returnProducts_line_failure[OF a]) (rule returnLine_rejects[OF b])
next
  fix currentDate and u :: user and d :: db and rq res d'
  assume ok: "returnProducts currentDate u d rq = (ProductsReturned res, d')"
     and inv: "\<forall>s \<in> set (sales d). \<forall>item \<in> set (sale_items s).
                 si_returnedQuantity item \<le> si_quantity item"
  from returnProducts_accepted[OF ok] obtain ls sale storeDoc st where
    f: "find (\<lambda>s. sale_id s = saleId rq
                 \<and> (case storeId rq of None \<Rightarrow> True | Some x \<Rightarrow> sale_store s = x))
        (sales d) = Some sale" and
    r: "returnLines (products d) ls
             \<lparr>rs_batches = batches d, rs_items = sale_items sale, rs_summary = [],
              rs_total = 0\<rparr> = Inr st" and
    d': "d' = d\<lparr>batches := rs_batches st,
               sales := saveSale (recordReturn currentDate u rq ls st sale) (sales d)\<rparr>"
    by (elim exE conjE) (rule that)
  from f have "sale \<in> set (sales d)" by (auto simp: find_Some_iff)
  with inv have "\<forall>item \<in> set (sale_items sale). si_returnedQuantity item \<le> si_quantity item"
    by blast
  with returnLines_bound[OF r]
  have new: "\<forall>item \<in> set (rs_items st). si_returnedQuantity item \<le> si_quantity item" by simp
  show "\<forall>s \<in> set (sales d'). \<forall>item \<in> set (sale_items s).
            si_returnedQuantity item \<le> si_quantity item"
  proof
    fix s assume "s \<in> set (sales d')"
    then have "s = recordReturn currentDate u rq ls st sale \<or> s \<in> set (sales d)"
      unfolding d' by (auto dest: saveSale_set)
    then show "\<forall>item \<in> set (sale_items s). si_returnedQuantity item \<le> si_quantity item"
    proof
      assume "s = recordReturn currentDate u rq ls st sale"
      then have "sale_items s = rs_items st" by (simp add: recordReturn_def)
      with new show ?thesis by simp
    next
      assume "s \<in> set (sales d)"
      with inv show ?thesis by blast
    qed
  qed
qed


lemma scenario_return: "returnProducts 1700000600000 ownerU db1 (returnOf [(Oid 202, 2)])
         = (ProductsReturned result2, db2)"
  by code_simp

theorem C7_over_return_rejected_witness:
  "returnProducts 1700000900000 ownerU db2 (returnOf [(Oid 201, 1), (Oid 202, 2)])
     = (Failure 400 (AlreadyReturned (Oid 100)), db2)
   \<and> returnLines (products db2) [lineOf (Oid 201) 1]
         \<lparr>rs_batches = batches db2, rs_items = sale_items sale8r, rs_summary = [],
          rs_total = 0\<rparr> = Inr state1
   \<and> map currentStock (rs_batches state1) = [9, 1]
   \<and> map currentStock (batches db2) = [9, 0]
   \<and> returnProducts 1700000600000 ownerU db1 (returnOf [(Oid 202, 2)])
         = (ProductsReturned result2, db2)
   \<and> map (\<lambda>i. (si_returnedQuantity i, si_quantity i)) (sale_items sale8r) = [(0, 5), (2, 3)]"
proof -
  let ?rq = "returnOf [(Oid 201, 1), (Oid 202, 2)]"
  let ?item = "\<lparr>si_product = Oid 100, si_batch = Oid 202, si_quantity = 3, si_unitPrice = 12,
          si_discount = 0, si_subtotal = 36, si_returnedQuantity = 2\<rparr>"
  have h1: "validateReturn ?rq = Inr ([lineOf (Oid 201) 1] @ lineOf (Oid 202) 2 # [])"
    by code_simp
  have h2: "find (\<lambda>s. sale_id s = saleId ?rq
                 \<and> (case storeId ?rq of None \<Rightarrow> True | Some x \<Rightarrow> sale_store s = x))
        (sales db2) = Some sale8r" by code_simp
  have h3: "find (\<lambda>st. st_id st = sale_store sale8r) (stores db2) = Some storeS" by code_simp
  have h4: "st_owner storeS = u_id ownerU \<or> u_id ownerU \<in> set (st_staff storeS)
            \<or> u_role ownerU = Admin" by (simp add: storeS_def ownerU_def)
  have h5: "daysDifference 1700000900000 (sale_createdAt sale8r) \<le> RETURN_WINDOW_DAYS"
    by code_simp
  have h6: "returnLines (products db2) [lineOf (Oid 201) 1]
         \<lparr>rs_batches = batches db2, rs_items = sale_items sale8r, rs_summary = [],
          rs_total = 0\<rparr> = Inr state1" by code_simp
  have h7: "find (matches (lineOf (Oid 202) 2)) (rs_items state1) = Some ?item" by code_simp
  have h8: "si_returnedQuantity ?item + rl_quantity (lineOf (Oid 202) 2) > si_quantity ?item"
    by (simp add: lineOf_def)
  have first: "returnProducts 1700000900000 ownerU db2 ?rq
                 = (Failure 400 (AlreadyReturned (Oid 100)), db2)"
    using C7_over_return_rejected[THEN conjunct1, rule_format, OF h1 h2 h3 h4 h5 h6 h7 h8]
    by (simp add: lineOf_def)
  have ok: "returnProducts 1700000600000 ownerU db1 (returnOf [(Oid 202, 2)])
         = (ProductsReturned result2, db2)" by (rule scenario_return)
  have inv: "si_returnedQuantity item \<le> si_quantity item"
    if "s \<in> set (sales db1)" "item \<in> set (sale_items s)" for s item
    using that by (auto simp: db1_def sale8_def)
  have kept: "si_returnedQuantity item \<le> si_quantity item"
    if "s \<in> set (sales db2)" "item \<in> set (sale_items s)" for s item
    using C7_over_return_rejected[THEN conjunct2, rule_format, OF ok inv that] .
  have "map currentStock (rs_batches state1) = [9, 1]"
       "map currentStock (batches db2) = [9, 0]"
       "map (\<lambda>i. (si_returnedQuantity i, si_quantity i)) (sale_items sale8r) = [(0, 5), (2, 3)]"
    by (simp_all add: state1_def db2_def sale8r_def)
  with first h6 ok show ?thesis by simp
qed











section \<open>Stock conservation\<close>


section \<open>cancelSale\<close>

lemma daysDifference_gt:
  "daysDifference a b > of_int n \<longleftrightarrow> a - b > n * 86400000"
proof -
  have "daysDifference a b > of_int n \<longleftrightarrow> (of_int (a - b) :: rat) > of_int n * 86400000"
    by (simp add: daysDifference_def field_simps)
  also have "\<dots> \<longleftrightarrow> (of_int (a - b) :: rat) > of_int (n * 86400000)" by simp
  also have "\<dots> \<longleftrightarrow> a - b > n * 86400000" by (simp only: of_int_less_iff)
  finally show ?thesis .
qed

lemma restore_step:
  assumes "distinct (map b_id bl)"
  shows "(case find (\<lambda>b. b_id b = i) bl of
            None \<Rightarrow> bl
          | Some batch \<Rightarrow> saveBatch (batch\<lparr>currentStock := currentStock batch + q\<rparr>) bl)
         = map (\<lambda>b. if b_id b = i then b\<lparr>currentStock := currentStock b + q\<rparr> else b) bl"
proof (cases "find (\<lambda>b. b_id b = i) bl")
  case None
  then have "\<forall>b \<in> set bl. b_id b \<noteq> i" by (auto simp: find_None_iff)
  then have "map (\<lambda>b. if b_id b = i then b\<lparr>currentStock := currentStock b + q\<rparr> else b) bl = bl"
    by (induction bl) auto
  with None show ?thesis by simp
next
  case (Some batch)
  then have mem: "batch \<in> set bl" and id: "b_id batch = i" by (auto simp: find_Some_iff)
  from saveBatch_stock[OF assms mem, of q] Some id show ?thesis by simp
qed

lemma restoreInventory_closed:
  assumes "distinct (map b_id bl)"
  shows "restoreInventory items bl
         = map (\<lambda>b. b\<lparr>currentStock := currentStock b + restoredTo items (b_id b)\<rparr>) bl"
  using assms
proof (induction items arbitrary: bl)
  case Nil
  then show ?case by (simp add: restoredTo_def)
next
  case (Cons item items)
  let ?bl = "map (\<lambda>b. if b_id b = si_batch item
                        then b\<lparr>currentStock := currentStock b + si_quantity item\<rparr> else b) bl"
  have ids: "map b_id ?bl = map b_id bl" by (induction bl) auto
  have d: "distinct (map b_id ?bl)" unfolding ids by (rule Cons.prems)
  have "restoreInventory (item # items) bl = restoreInventory items ?bl"
    by (simp add: restore_step[OF Cons.prems])
  also have "\<dots> = map (\<lambda>b. b\<lparr>currentStock := currentStock b + restoredTo items (b_id b)\<rparr>) ?bl"
    by (rule Cons.IH[OF d])
  also have "\<dots> = map (\<lambda>b. b\<lparr>currentStock := currentStock b
                               + restoredTo (item # items) (b_id b)\<rparr>) bl"
    by (simp add: restoredTo_def algebra_simps)
  finally show ?case .
qed

lemma cancelSaleTx_Inl:
  "cancelSaleTx currentDate u d sid = Inl r \<Longrightarrow> \<exists>c f. r = Failure c f"
  by (auto simp: cancelSaleTx_def Let_def split: if_splits option.splits)

lemma cancelSale_canceled:
  assumes "cancelSale currentDate u d sid = (SaleCanceled, d')"
  shows "\<exists>sale store.
           isValid sid
         \<and> find (\<lambda>s. sale_id s = sid) (sales d) = Some sale
         \<and> find (\<lambda>st. st_id st = sale_store sale) (stores d) = Some store
         \<and> (st_owner store = u_id u \<or> u_role u = Admin)
         \<and> \<not> daysDifference currentDate (sale_createdAt sale) > 7
         \<and> d' = d\<lparr>batches := restoreInventory (sale_items sale) (batches d),
                   sales := filter (\<lambda>s. sale_id s \<noteq> sid) (sales d)\<rparr>"
proof -
  from assms have tx: "cancelSaleTx currentDate u d sid = Inr d'"
    by (auto simp: cancelSale_def split: sum.splits dest: cancelSaleTx_Inl)
  then have v: "isValid sid" by (rule_tac ccontr) (simp add: cancelSaleTx_def)
  from tx v obtain sale where f: "find (\<lambda>s. sale_id s = sid) (sales d) = Some sale"
    by (cases "find (\<lambda>s. sale_id s = sid) (sales d)") (simp_all add: cancelSaleTx_def)
  from tx v f obtain store where
    s: "find (\<lambda>st. st_id st = sale_store sale) (stores d) = Some store"
    by (cases "find (\<lambda>st. st_id st = sale_store sale) (stores d)")
       (simp_all add: cancelSaleTx_def)
  have auth: "st_owner store = u_id u \<or> u_role u = Admin"
  proof (rule ccontr)
    assume "\<not> ?thesis"
    then have "st_owner store \<noteq> u_id u \<and> u_role u \<noteq> Admin" by blast
    with tx v f s show False by (simp add: cancelSaleTx_def Let_def)
  qed
  have win: "\<not> daysDifference currentDate (sale_createdAt sale) > 7"
  proof
    assume "daysDifference currentDate (sale_createdAt sale) > 7"
    with tx v f s auth show False by (auto simp: cancelSaleTx_def Let_def)
  qed
  from tx v f s auth win have
    "d' = d\<lparr>batches := restoreInventory (sale_items sale) (batches d),
            sales := filter (\<lambda>s. sale_id s \<noteq> sid) (sales d)\<rparr>"
    by (auto simp: cancelSaleTx_def Let_def)
  with v f s auth win show ?thesis
    by (intro exI[of _ sale] exI[of _ store]) simp
qed

lemma cancelSale_too_old:
  assumes "find (\<lambda>s. sale_id s = sid) (sales d) = Some sale"
      and "daysDifference currentDate (sale_createdAt sale) > 7"
  shows "\<exists>c f. cancelSale currentDate u d sid = (Failure c f, d)
           \<and> (isValid sid \<longrightarrow>
                (\<forall>store. find (\<lambda>st. st_id st = sale_store sale) (stores d) = Some store \<longrightarrow>
                   (st_owner store = u_id u \<or> u_role u = Admin) \<longrightarrow>
                   c = 400 \<and> f = TooOldToCancel))"
  using assms
  by (auto simp: cancelSale_def cancelSaleTx_def Let_def split: option.splits)

lemma cancelSale_succeeds:
  assumes "isValid sid"
      and "find (\<lambda>s. sale_id s = sid) (sales d) = Some sale"
      and "find (\<lambda>st. st_id st = sale_store sale) (stores d) = Some store"
      and "st_owner store = u_id u \<or> u_role u = Admin"
      and "\<not> daysDifference currentDate (sale_createdAt sale) > 7"
  shows "cancelSale currentDate u d sid =
           (SaleCanceled, d\<lparr>batches := restoreInventory (sale_items sale) (batches d),
                             sales := filter (\<lambda>s. sale_id s \<noteq> sid) (sales d)\<rparr>)"
  using assms by (auto simp: cancelSale_def cancelSaleTx_def Let_def)

lemma returnProducts_too_old:
  assumes "validateReturn rq = Inr ls"
      and "find (\<lambda>s. sale_id s = saleId rq
                      \<and> (case storeId rq of None \<Rightarrow> True | Some x \<Rightarrow> sale_store s = x))
             (sales d) = Some sale"
      and "find (\<lambda>st. st_id st = sale_store sale) (stores d) = Some storeDoc"
      and "st_owner storeDoc = u_id u \<or> u_id u \<in> set (st_staff storeDoc) \<or> u_role u = Admin"
      and "daysDifference currentDate (sale_createdAt sale) > 30"
  shows "returnProducts currentDate u d rq = (Failure 400 ReturnWindowExpired, d)"
  using assms
  by (auto simp: returnProducts_def returnProductsTx_def Let_def RETURN_WINDOW_DAYS_def)


text \<open>
  Claim C9. A cancelSale that succeeds was asked for by the owner of the sale's store or by
  an administrator, not more than 7 days after the sale was created; it adds to every
  batch the full quantity of each item of the sale on that batch and removes the sale from
  the collection, and with a valid id, owner or administrator and a sale of at most 7 days
  it does succeed. Past 7 days it fails, for the owner with the too-old failure, and
  returns the database unchanged. Returns have their own window: a return is refused for
  its age only past 30 days.
\<close>

theorem C9_cancel_owner_admin_seven_days:
  "(\<forall>currentDate (u :: user) (d :: db) sid d'.
      cancelSale currentDate u d sid = (SaleCanceled, d') \<longrightarrow>
      (\<exists>sale store.
          find (\<lambda>s. sale_id s = sid) (sales d) = Some sale
        \<and> find (\<lambda>st. st_id st = sale_store sale) (stores d) = Some store
        \<and> (st_owner store = u_id u \<or> u_role u = Admin)
        \<and> currentDate - sale_createdAt sale \<le> 7 * 86400000
        \<and> batches d' = restoreInventory (sale_items sale) (batches d)
        \<and> (distinct (map b_id (batches d)) \<longrightarrow>
             batches d' = map (\<lambda>b. b\<lparr>currentStock := currentStock b
                                       + restoredTo (sale_items sale) (b_id b)\<rparr>) (batches d))
        \<and> sales d' = filter (\<lambda>s. sale_id s \<noteq> sid) (sales d)
        \<and> find (\<lambda>s. sale_id s = sid) (sales d') = None
        \<and> stores d' = stores d \<and> customers d' = customers d \<and> products d' = products d))
   \<and> (\<forall>currentDate (u :: user) (d :: db) sid sale store.
        isValid sid \<longrightarrow>
        find (\<lambda>s. sale_id s = sid) (sales d) = Some sale \<longrightarrow>
        find (\<lambda>st. st_id st = sale_store sale) (stores d) = Some store \<longrightarrow>
        (st_owner store = u_id u \<or> u_role u = Admin) \<longrightarrow>
        (currentDate - sale_createdAt sale \<le> 7 * 86400000 \<longrightarrow>
           fst (cancelSale currentDate u d sid) = SaleCanceled)
        \<and> (currentDate - sale_createdAt sale > 7 * 86400000 \<longrightarrow>
           cancelSale currentDate u d sid = (Failure 400 TooOldToCancel, d)))
   \<and> (\<forall>currentDate (u :: user) (d :: db) sid sale.
        find (\<lambda>s. sale_id s = sid) (sales d) = Some sale \<longrightarrow>
        currentDate - sale_createdAt sale > 7 * 86400000 \<longrightarrow>
        (\<exists>c f. cancelSale currentDate u d sid = (Failure c f, d)))
   \<and> (\<forall>currentDate (u :: user) (d :: db) rq ls sale storeDoc.
        validateReturn rq = Inr ls \<longrightarrow>
        find (\<lambda>s. sale_id s = saleId rq
                   \<and> (case storeId rq of None \<Rightarrow> True | Some x \<Rightarrow> sale_store s = x))
          (sales d) = Some sale \<longrightarrow>
        find (\<lambda>st. st_id st = sale_store sale) (stores d) = Some storeDoc \<longrightarrow>
        (st_owner storeDoc = u_id u \<or> u_id u \<in> set (st_staff storeDoc) \<or> u_role u = Admin) \<longrightarrow>
        currentDate - sale_createdAt sale > 30 * 86400000 \<longrightarrow>
        returnProducts currentDate u d rq = (Failure 400 ReturnWindowExpired, d))"
proof (intro conjI allI impI)
  fix currentDate and u :: user and d :: db and sid d'
  assume ok: "cancelSale currentDate u d sid = (SaleCanceled, d')"
  from cancelSale_canceled[OF ok] obtain sale store where
    f: "find (\<lambda>s. sale_id s = sid) (sales d) = Some sale" and
    s: "find (\<lambda>st. st_id st = sale_store sale) (stores d) = Some store" and
    auth: "st_owner store = u_id u \<or> u_role u = Admin" and
    win: "\<not> daysDifference currentDate (sale_createdAt sale) > 7" and
    d': "d' = d\<lparr>batches := restoreInventory (sale_items sale) (batches d),
               sales := filter (\<lambda>s. sale_id s \<noteq> sid) (sales d)\<rparr>"
    by (elim exE conjE) (rule that)
  from win daysDifference_gt[of 7 currentDate "sale_createdAt sale"]
  have w: "currentDate - sale_createdAt sale \<le> 7 * 86400000" by simp
  have gone: "find (\<lambda>s. sale_id s = sid) (filter (\<lambda>s. sale_id s \<noteq> sid) (sales d)) = None"
    by (simp add: find_None_iff)
  show "\<exists>sale store.
          find (\<lambda>s. sale_id s = sid) (sales d) = Some sale
        \<and> find (\<lambda>st. st_id st = sale_store sale) (stores d) = Some store
        \<and> (st_owner store = u_id u \<or> u_role u = Admin)
        \<and> currentDate - sale_createdAt sale \<le> 7 * 86400000
        \<and> batches d' = restoreInventory (sale_items sale) (batches d)
        \<and> (distinct (map b_id (batches d)) \<longrightarrow>
             batches d' = map (\<lambda>b. b\<lparr>currentStock := currentStock b
                                       + restoredTo (sale_items sale) (b_id b)\<rparr>) (batches d))
        \<and> sales d' = filter (\<lambda>s. sale_id s \<noteq> sid) (sales d)
        \<and> find (\<lambda>s. sale_id s = sid) (sales d') = None
        \<and> stores d' = stores d \<and> customers d' = customers d \<and> products d' = products d"
    apply (rule exI[of _ sale])
    apply (rule exI[of _ store])
    using f s auth w gone by (simp add: d' restoreInventory_closed)
next
  fix currentDate and u :: user and d :: db and sid and sale :: sale and store :: store
  assume a: "isValid sid" "find (\<lambda>s. sale_id s = sid) (sales d) = Some sale"
    "find (\<lambda>st. st_id st = sale_store sale) (stores d) = Some store"
    "st_owner store = u_id u \<or> u_role u = Admin"
    and w: "currentDate - sale_createdAt sale \<le> 7 * 86400000"
  from w daysDifference_gt[of 7 currentDate "sale_createdAt sale"]
  have "\<not> daysDifference currentDate (sale_createdAt sale) > 7" by simp
  from cancelSale_succeeds[OF a this]
  show "fst (cancelSale currentDate u d sid) = SaleCanceled" by simp
next
  fix currentDate and u :: user and d :: db and sid and sale :: sale and store :: store
  assume a: "isValid sid" "find (\<lambda>s. sale_id s = sid) (sales d) = Some sale"
    "find (\<lambda>st. st_id st = sale_store sale) (stores d) = Some store"
    "st_owner store = u_id u \<or> u_role u = Admin"
    and w: "currentDate - sale_createdAt sale > 7 * 86400000"
  from w daysDifference_gt[of 7 currentDate "sale_createdAt sale"]
  have old: "daysDifference currentDate (sale_createdAt sale) > 7" by simp
  from cancelSale_too_old[OF a(2) old, of u] a(1,3,4)
  show "cancelSale currentDate u d sid = (Failure 400 TooOldToCancel, d)" by auto
next
  fix currentDate and u :: user and d :: db and sid and sale :: sale
  assume f: "find (\<lambda>s. sale_id s = sid) (sales d) = Some sale"
    and w: "currentDate - sale_createdAt sale > 7 * 86400000"
  from w daysDifference_gt[of 7 currentDate "sale_createdAt sale"]
  have old: "daysDifference currentDate (sale_createdAt sale) > 7" by simp
  from cancelSale_too_old[OF f old, of u]
  show "\<exists>c f. cancelSale currentDate u d sid = (Failure c f, d)" by blast
next
  fix currentDate and u :: user and d :: db and rq ls and sale :: sale and storeDoc :: store
  assume a: "validateReturn rq = Inr ls"
    "find (\<lambda>s. sale_id s = saleId rq
                   \<and> (case storeId rq of None \<Rightarrow> True | Some x \<Rightarrow> sale_store s = x))
          (sales d) = Some sale"
    "find (\<lambda>st. st_id st = sale_store sale) (stores d) = Some storeDoc"
    "st_owner storeDoc = u_id u \<or> u_id u \<in> set (st_staff storeDoc) \<or> u_role u = Admin"
    and w: "currentDate - sale_createdAt sale > 30 * 86400000"
  from w daysDifference_gt[of 30 currentDate "sale_createdAt sale"]
  have old: "daysDifference currentDate (sale_createdAt sale) > 30" by simp
  show "returnProducts currentDate u d rq = (Failure 400 ReturnWindowExpired, d)"
    by (rule returnProducts_too_old[OF a old])
qed

theorem C9_cancel_owner_admin_seven_days_witness:
  "cancelSale t2 ownerU db1 (Oid 400)
     = (SaleCanceled, db1\<lparr>batches := [batchB2, batchB1], sales := []\<rparr>)
   \<and> cancelSale t10 ownerU db1 (Oid 400) = (Failure 400 TooOldToCancel, db1)
   \<and> cancelSale t2 staffU db1 (Oid 400) = (Failure 403 NotOwnerOrAdmin, db1)
   \<and> fst (returnProducts t10 ownerU db1 (returnOf [(Oid 202, 2)])) = ProductsReturned result2
   \<and> map currentStock (batches db1) = [7, 0]
   \<and> map currentStock [batchB2, batchB1] = [10, 5]"
proof -
  have c: "cancelSale t2 ownerU db1 (Oid 400)
     = (SaleCanceled, db1\<lparr>batches := [batchB2, batchB1], sales := []\<rparr>)" by code_simp
  have v: "isValid (Oid 400)" by simp
  have f: "find (\<lambda>s. sale_id s = Oid 400) (sales db1) = Some sale8" by code_simp
  have s: "find (\<lambda>st. st_id st = sale_store sale8) (stores db1) = Some storeS" by code_simp
  have a: "st_owner storeS = u_id ownerU \<or> u_role ownerU = Admin"
    by (simp add: storeS_def ownerU_def)
  have w: "t10 - sale_createdAt sale8 > 7 * 86400000" by (simp add: t10_def sale8_def)
  have old: "cancelSale t10 ownerU db1 (Oid 400) = (Failure 400 TooOldToCancel, db1)"
    by (rule C9_cancel_owner_admin_seven_days[THEN conjunct2, THEN conjunct1, rule_format,
              OF v f s a, THEN conjunct2, rule_format, OF w])
  have "cancelSale t2 staffU db1 (Oid 400) = (Failure 403 NotOwnerOrAdmin, db1)" by code_simp
  moreover have "fst (returnProducts t10 ownerU db1 (returnOf [(Oid 202, 2)]))
                 = ProductsReturned result2" by code_simp
  moreover have "map currentStock (batches db1) = [7, 0]"
                "map currentStock [batchB2, batchB1] = [10, 5]"
    by (simp_all add: db1_def batchB1_def batchB2_def)
  ultimately show ?thesis using c old by simp
qed


section \<open>Quantities that are no integers\<close>








lemma recalculationResponse_not_created: "recalculationResponse rq w \<noteq> SaleCreated s"
  by (auto simp: recalculationResponse_def split: option.splits)






end
